theory Spec2Isabelle
  imports Main "HOL-Library.Word"
begin

section \<open>Library functions used by \<open>utils.py\<close>\<close>

text \<open>
  \<open>BatchInference\<close> (file \<open>utils.py\<close>) calls four functions of the Python standard
  library: \<open>os.path.basename\<close>, \<open>base64.b64encode\<close>, \<open>bytes.decode\<close> and
  \<open>json.dumps\<close>. They are modelled here as the library computes them. A Python \<open>str\<close>
  is a \<open>string\<close> whose characters are the code points below 256; a \<open>bytes\<close> value is
  a list of 8-bit words.
\<close>

type_synonym byte = "8 word"
type_synonym bytes = "byte list"

subsection \<open>\<open>os.path.basename\<close> (posixpath)\<close>

text \<open>
  \<^verbatim>\<open>i = p.rfind('/') + 1; return p[i:]\<close>: everything after the last slash, the whole
  path when there is none.
\<close>

definition basename :: "string \<Rightarrow> string" where
  "basename p = rev (takeWhile (\<lambda>c. c \<noteq> CHR ''/'') (rev p))"

subsection \<open>\<open>base64.b64encode\<close>\<close>

definition table_b2a_base64 :: string where
  "table_b2a_base64 =
     ''ABCDEFGHIJKLMNOPQRSTUVWXYZabcdefghijklmnopqrstuvwxyz0123456789+/''"

definition b64char :: "nat \<Rightarrow> char" where
  "b64char i = table_b2a_base64 ! i"

text \<open>
  Three bytes give four 6-bit groups; a last group of one or two bytes is padded with
  \<open>=\<close>. Every index handed to \<open>b64char\<close> is below 64.
\<close>

fun b64encode :: "bytes \<Rightarrow> string" where
  "b64encode [] = []"
| "b64encode [a] =
     [b64char (unat a div 4), b64char ((unat a mod 4) * 16), CHR ''='', CHR ''='']"
| "b64encode [a, b] =
     [b64char (unat a div 4), b64char ((unat a mod 4) * 16 + unat b div 16),
      b64char ((unat b mod 16) * 4), CHR ''='']"
| "b64encode (a # b # c # rest) =
     [b64char (unat a div 4), b64char ((unat a mod 4) * 16 + unat b div 16),
      b64char ((unat b mod 16) * 4 + unat c div 64), b64char (unat c mod 64)]
     @ b64encode rest"

text \<open>
  The decoder of RFC 4648, strict: the text is a sequence of groups of four characters
  of the alphabet, the last of which may end in one or two \<open>=\<close>.
\<close>

fun index_of :: "'a \<Rightarrow> 'a list \<Rightarrow> nat option" where
  "index_of x [] = None"
| "index_of x (y # ys) = (if x = y then Some 0 else map_option Suc (index_of x ys))"

definition b64index :: "char \<Rightarrow> nat option" where
  "b64index c = index_of c table_b2a_base64"

definition decode_group :: "char \<Rightarrow> char \<Rightarrow> char \<Rightarrow> char \<Rightarrow> bytes option" where
  "decode_group c0 c1 c2 c3 =
     (case (b64index c0, b64index c1) of
        (Some n0, Some n1) \<Rightarrow>
          (if c2 = CHR ''='' \<and> c3 = CHR ''='' then Some [of_nat (n0 * 4 + n1 div 16)]
           else case b64index c2 of
             None \<Rightarrow> None
           | Some n2 \<Rightarrow>
               (if c3 = CHR ''=''
                then Some [of_nat (n0 * 4 + n1 div 16), of_nat ((n1 mod 16) * 16 + n2 div 4)]
                else case b64index c3 of
                  None \<Rightarrow> None
                | Some n3 \<Rightarrow>
                    Some [of_nat (n0 * 4 + n1 div 16), of_nat ((n1 mod 16) * 16 + n2 div 4),
                          of_nat ((n2 mod 4) * 64 + n3)]))
      | _ \<Rightarrow> None)"

fun b64decode :: "string \<Rightarrow> bytes option" where
  "b64decode [] = Some []"
| "b64decode (c0 # c1 # c2 # c3 # rest) =
     (case decode_group c0 c1 c2 c3 of
        None \<Rightarrow> None
      | Some bs \<Rightarrow>
          (if c3 = CHR ''='' then (if rest = [] then Some bs else None)
           else map_option (\<lambda>more. bs @ more) (b64decode rest)))"
| "b64decode _ = None"

subsection \<open>\<open>json.dumps\<close>\<close>

text \<open>
  The values \<open>utils.py\<close> serialises are strings, integers, lists and dictionaries;
  a dictionary keeps the insertion order of its keys.
\<close>

datatype json = JStr string | JInt int | JList "json list" | JDict "(string \<times> json) list"

definition hex_digit :: "nat \<Rightarrow> char" where
  "hex_digit n = ''0123456789abcdef'' ! n"

text \<open>
  \<open>json.encoder.py_encode_basestring_ascii\<close> (the default \<open>ensure_ascii=True\<close>): the
  backslash, the double quote and every character outside \<open>' '..'~'\<close> are replaced,
  by the short escape of \<open>ESCAPE_DCT\<close> when there is one, by \<open>\uXXXX\<close> otherwise.
\<close>

definition escape_char :: "char \<Rightarrow> string" where
  "escape_char c =
     (if c = CHR 0x5C then [CHR 0x5C, CHR 0x5C]
      else if c = CHR 0x22 then [CHR 0x5C, CHR 0x22]
      else if c = CHR 0x08 then [CHR 0x5C, CHR ''b'']
      else if c = CHR 0x0C then [CHR 0x5C, CHR ''f'']
      else if c = CHR 0x0A then [CHR 0x5C, CHR ''n'']
      else if c = CHR 0x0D then [CHR 0x5C, CHR ''r'']
      else if c = CHR 0x09 then [CHR 0x5C, CHR ''t'']
      else if 0x20 \<le> (of_char c :: nat) \<and> (of_char c :: nat) \<le> 0x7E then [c]
      else [CHR 0x5C, CHR ''u'', CHR ''0'', CHR ''0'',
            hex_digit ((of_char c :: nat) div 16), hex_digit ((of_char c :: nat) mod 16)])"

definition encode_basestring_ascii :: "string \<Rightarrow> string" where
  "encode_basestring_ascii s = [CHR 0x22] @ concat (map escape_char s) @ [CHR 0x22]"

text \<open>
  \<open>int.__repr__\<close>: the decimal digits, most significant first, after a minus sign
  for a negative number. A decimal digit is one of the first ten characters of the
  table of \<open>hex_digit\<close>.
\<close>

fun nat_repr :: "nat \<Rightarrow> string" where
  "nat_repr n =
     (if n < 10 then [hex_digit n] else nat_repr (n div 10) @ [hex_digit (n mod 10)])"

declare nat_repr.simps [simp del]

definition int_repr :: "int \<Rightarrow> string" where
  "int_repr i = (if i < 0 then CHR ''-'' # nat_repr (nat (- i)) else nat_repr (nat i))"

fun join :: "string \<Rightarrow> string list \<Rightarrow> string" where
  "join sep [] = []"
| "join sep [x] = x"
| "join sep (x # y # ys) = x @ sep @ join sep (y # ys)"

text \<open>The default separators of \<open>json.dumps\<close> are \<open>', '\<close> and \<open>': '\<close>.\<close>

fun dumps :: "json \<Rightarrow> string"
  and dumps_items :: "(string \<times> json) list \<Rightarrow> string list"
  and dumps_elems :: "json list \<Rightarrow> string list" where
  "dumps (JStr s) = encode_basestring_ascii s"
| "dumps (JInt i) = int_repr i"
| "dumps (JList xs) = ''['' @ join '', '' (dumps_elems xs) @ '']''"
| "dumps (JDict kvs) = ''{'' @ join '', '' (dumps_items kvs) @ ''}''"
| "dumps_items [] = []"
| "dumps_items (kv # kvs) =
     (encode_basestring_ascii (fst kv) @ '': '' @ dumps (snd kv)) # dumps_items kvs"
| "dumps_elems [] = []"
| "dumps_elems (x # xs) = dumps x # dumps_elems xs"

section \<open>The collaborators and the world\<close>

text \<open>
  An exception is a value. \<open>Exception\<close> carries the message of an error raised by a
  collaborator; \<open>KeyError\<close> is what a dictionary lookup raises on a missing key and
  \<open>FileNotFoundError\<close> what \<open>open\<close> raises on a missing file; \<open>OSError\<close> carries the
  message of any other error of the operating system on a local file. All four are
  instances of Python's \<open>Exception\<close> class, which is what \<open>except Exception\<close> catches.
\<close>

datatype exn = Exception string | KeyError string | FileNotFoundError string | OSError string

fun str_exn :: "exn \<Rightarrow> string" where
  "str_exn (Exception m) = m"
| "str_exn (KeyError k) = [CHR 0x27] @ k @ [CHR 0x27]"
| "str_exn (FileNotFoundError f) =
     ''[Errno 2] No such file or directory: '' @ [CHR 0x27] @ f @ [CHR 0x27]"
| "str_exn (OSError m) = m"

text \<open>The keyword arguments of \<open>create_model_invocation_job\<close>.\<close>

record job_request =
  jobName :: string
  modelId :: string
  inputDataConfig :: json
  outputDataConfig :: json
  roleArn :: string

text \<open>
  Every call to a collaborator is recorded with its arguments and its outcome, in the
  order the calls are made. The response of \<open>create_model_invocation_job\<close> is a
  dictionary of strings.
\<close>

datatype event =
    ListObjS3 string string "exn + string list"
  | GetObject string string "exn + bytes"
  | PutObject string string string "exn + unit"
  | CreateModelInvocationJob job_request "exn + (string \<times> string) list"

text \<open>
  A write of a local file, lines 55 to 57, is recorded with the name of the file, the
  text the loop writes and the outcome.
\<close>

datatype file_event = WriteFile string string "exn + unit"

text \<open>
  The world outside the object: the calls made so far, the lines printed so far, the
  files of the working directory, the writes of local files made so far, and whether a
  file of the working directory can be written. \<open>write_error name\<close> is \<open>None\<close> when
  \<open>name\<close> can be opened for writing, written and closed; otherwise it holds the
  exception that \<open>open\<close>, \<open>f.write\<close> or the end of the \<open>with\<close> block raises (the name
  is a directory, the directory is read-only, the device is full) and what the failed
  attempt leaves under that name. It is a property of the working directory, which the
  two methods do not change.
\<close>

record world =
  events :: "event list"
  stdout :: "string list"
  files :: "string \<rightharpoonup> string"
  file_events :: "file_event list"
  write_error :: "string \<Rightarrow> (exn \<times> string option) option"

text \<open>
  The two clients are objects whose methods are not part of the repository. A method is
  a function of the history of calls and of its arguments; it returns a value or raises.
  \<open>get_object\<close> stands for the call followed by \<open>image["Body"].read()\<close>.
\<close>

record s3_client_obj =
  get_object :: "event list \<Rightarrow> string \<Rightarrow> string \<Rightarrow> exn + bytes"
  put_object :: "event list \<Rightarrow> string \<Rightarrow> string \<Rightarrow> string \<Rightarrow> exn + unit"

record bedrock_client_obj =
  create_model_invocation_job ::
    "event list \<Rightarrow> job_request \<Rightarrow> exn + (string \<times> string) list"

text \<open>
  \<open>list_obj_s3\<close> is imported from the module \<open>helpers\<close>, which is not among the sources:
  it is a parameter of the two operations, a function of the client, the history, the
  bucket and the folder that returns a list of keys or raises.
\<close>

type_synonym list_obj_s3_fn =
  "s3_client_obj \<Rightarrow> event list \<Rightarrow> string \<Rightarrow> string \<Rightarrow> exn + string list"

text \<open>The attributes set by \<open>__init__\<close>.\<close>

record BatchInference =
  bedrock_client :: bedrock_client_obj
  s3_client :: s3_client_obj
  bucket_name :: string
  folder_name :: string
  output_folder :: string
  model_id :: string
  creation_prompt :: string
  role_arn :: string
  job_name :: string

definition init :: "bedrock_client_obj \<Rightarrow> s3_client_obj \<Rightarrow> string \<Rightarrow> string \<Rightarrow> string \<Rightarrow>
    string \<Rightarrow> string \<Rightarrow> string \<Rightarrow> string \<Rightarrow> BatchInference" where
  "init bedrock_client' s3_client' bucket_name' folder_name' output_folder' model_id'
        creation_prompt' role_arn' job_name' =
     \<lparr>bedrock_client = bedrock_client', s3_client = s3_client', bucket_name = bucket_name',
      folder_name = folder_name', output_folder = output_folder', model_id = model_id',
      creation_prompt = creation_prompt', role_arn = role_arn', job_name = job_name'\<rparr>"

subsection \<open>Calls\<close>

definition print :: "string \<Rightarrow> world \<Rightarrow> world" where
  "print line w = w\<lparr>stdout := stdout w @ [line]\<rparr>"

definition call_list_obj_s3 ::
    "list_obj_s3_fn \<Rightarrow> s3_client_obj \<Rightarrow> string \<Rightarrow> string \<Rightarrow> world \<Rightarrow> (exn + string list) \<times> world" where
  "call_list_obj_s3 list_obj_s3 client bucket folder w =
     (let r = list_obj_s3 client (events w) bucket folder
      in (r, w\<lparr>events := events w @ [ListObjS3 bucket folder r]\<rparr>))"

definition call_get_object ::
    "s3_client_obj \<Rightarrow> string \<Rightarrow> string \<Rightarrow> world \<Rightarrow> (exn + bytes) \<times> world" where
  "call_get_object client bucket key w =
     (let r = get_object client (events w) bucket key
      in (r, w\<lparr>events := events w @ [GetObject bucket key r]\<rparr>))"

definition call_put_object ::
    "s3_client_obj \<Rightarrow> string \<Rightarrow> string \<Rightarrow> string \<Rightarrow> world \<Rightarrow> (exn + unit) \<times> world" where
  "call_put_object client bucket key body w =
     (let r = put_object client (events w) bucket key body
      in (r, w\<lparr>events := events w @ [PutObject bucket key body r]\<rparr>))"

definition call_create_model_invocation_job ::
    "bedrock_client_obj \<Rightarrow> job_request \<Rightarrow> world \<Rightarrow> (exn + (string \<times> string) list) \<times> world" where
  "call_create_model_invocation_job client req w =
     (let r = create_model_invocation_job client (events w) req
      in (r, w\<lparr>events := events w @ [CreateModelInvocationJob req r]\<rparr>))"

section \<open>\<open>BatchInference.create_input_jsonl\<close>\<close>

text \<open>The dictionary \<open>json_obj\<close> built for one image (lines 27 to 52).\<close>

definition json_obj :: "BatchInference \<Rightarrow> string \<Rightarrow> bytes \<Rightarrow> json" where
  "json_obj self image_filename image_binary =
     (let image_bytes = b64encode image_binary;
          content = [JDict [(''type'', JStr ''image''),
                            (''source'', JDict [(''type'', JStr ''base64''),
                                                (''media_type'', JStr ''image/jpeg''),
                                                (''data'', JStr image_bytes)])]]
      in JDict [(''recordId'', JStr (basename image_filename)),
                (''modelInput'',
                   JDict [(''anthropic_version'', JStr ''bedrock-2023-05-31''),
                          (''max_tokens'', JInt 1024),
                          (''system'', JStr (creation_prompt self)),
                          (''messages'', JList [JDict [(''role'', JStr ''user''),
                                                       (''content'', JList content)]])])])"

text \<open>
  The first loop (lines 22 to 53): one \<open>get_object\<close> per listed key, in the order of the
  list; the record is appended to \<open>input_json_file\<close>. An exception of \<open>get_object\<close>
  leaves the loop and the method.
\<close>

fun build_records ::
    "BatchInference \<Rightarrow> string list \<Rightarrow> json list \<Rightarrow> world \<Rightarrow> (exn + json list) \<times> world" where
  "build_records self [] input_json_file w = (Inr input_json_file, w)"
| "build_records self (image_filename # rest) input_json_file w =
     (case call_get_object (s3_client self) (bucket_name self) image_filename w of
        (Inl e, w') \<Rightarrow> (Inl e, w')
      | (Inr image_binary, w') \<Rightarrow>
          build_records self rest
            (input_json_file @ [json_obj self image_filename image_binary]) w')"

text \<open>The second loop (lines 55 to 57): what \<open>f.write\<close> has written after each record.\<close>

fun write_records :: "json list \<Rightarrow> string \<Rightarrow> string" where
  "write_records [] f = f"
| "write_records (record # rest) f = write_records rest (f @ dumps record @ [CHR 0x0A])"

definition esc :: "string \<Rightarrow> string" where
  "esc code = [CHR 0x1B] @ ''['' @ code @ ''m''"

text \<open>
  Lines 55 to 57: \<open>open('input.jsonl', 'w')\<close>, the writes of the loop and the end of the
  \<open>with\<close> block. They are outside the \<open>try\<close>: what they raise leaves the method.
\<close>

definition call_write_file :: "string \<Rightarrow> string \<Rightarrow> world \<Rightarrow> (exn + unit) \<times> world" where
  "call_write_file name f w =
     (case write_error w name of
        Some (e, left) \<Rightarrow>
          (Inl e, w\<lparr>files := (files w)(name := left),
                     file_events := file_events w @ [WriteFile name f (Inl e)]\<rparr>)
      | None \<Rightarrow>
          (Inr (), w\<lparr>files := (files w)(name \<mapsto> f),
                     file_events := file_events w @ [WriteFile name f (Inr ())]\<rparr>))"

text \<open>
  Lines 60 to 69: the \<open>try\<close> block opens the local file for reading and hands it to
  \<open>put_object\<close>, whose body is the content of the file (ASCII text, so its bytes are its
  characters); whatever the block raises is printed by the handler and not raised again.
\<close>

definition upload_input_jsonl :: "BatchInference \<Rightarrow> world \<Rightarrow> world" where
  "upload_input_jsonl self w =
     (let w1 = print (esc ''31'' @ ''Uploading input.jsonl file to S3 bucket at path ''
                      @ bucket_name self @ ''/input.jsonl'' @ esc ''0'') w
      in case files w1 ''input.jsonl'' of
           None \<Rightarrow> print (str_exn (FileNotFoundError ''input.jsonl'')) w1
         | Some f \<Rightarrow>
             (case call_put_object (s3_client self) (bucket_name self) ''input.jsonl'' f w1 of
                (Inl e, w2) \<Rightarrow> print (str_exn e) w2
              | (Inr _, w2) \<Rightarrow> print (esc ''32'' @ ''Uploaded file'' @ esc ''0'') w2))"

text \<open>
  The method returns its outcome, the object and the world: an assignment to an
  attribute would show in the second component.
\<close>

definition create_input_jsonl ::
    "list_obj_s3_fn \<Rightarrow> BatchInference \<Rightarrow> world \<Rightarrow> (exn + unit) \<times> BatchInference \<times> world" where
  "create_input_jsonl list_obj_s3 self w =
     (case call_list_obj_s3 list_obj_s3 (s3_client self) (bucket_name self) (folder_name self) w of
        (Inl e, w1) \<Rightarrow> (Inl e, self, w1)
      | (Inr list_of_images, w1) \<Rightarrow>
          (case build_records self list_of_images [] w1 of
             (Inl e, w2) \<Rightarrow> (Inl e, self, w2)
           | (Inr input_json_file, w2) \<Rightarrow>
               (case call_write_file ''input.jsonl'' (write_records input_json_file []) w2 of
                  (Inl e, w3) \<Rightarrow> (Inl e, self, w3)
                | (Inr _, w3) \<Rightarrow>
                    let w4 = print (esc ''32''
                                    @ ''Created JSONL file and store local copy as input.jsonl''
                                    @ esc ''0'') w3
                    in (Inr (), self, upload_input_jsonl self w4))))"

section \<open>\<open>BatchInference.start_batch_inference_job\<close>\<close>

text \<open>Lines 134 to 155: the two data configurations and the keyword arguments.\<close>

definition job_request_of :: "BatchInference \<Rightarrow> job_request" where
  "job_request_of self =
     (let inputDataConfig' =
            JDict [(''s3InputDataConfig'',
                      JDict [(''s3InputFormat'', JStr ''JSONL''),
                             (''s3Uri'', JStr (''s3://'' @ bucket_name self @ ''/input.jsonl''))])];
          outputDataConfig' =
            JDict [(''s3OutputDataConfig'',
                      JDict [(''s3Uri'', JStr (''s3://'' @ bucket_name self @ ''/''
                                               @ output_folder self))])]
      in \<lparr>jobName = job_name self, modelId = model_id self,
          inputDataConfig = inputDataConfig', outputDataConfig = outputDataConfig',
          roleArn = role_arn self\<rparr>)"

text \<open>
  Lines 134 to 158. \<open>response['jobArn']\<close> raises \<open>KeyError\<close> when the response has no
  such key; it is first evaluated inside the last \<open>print\<close>.
\<close>

definition submit_job :: "BatchInference \<Rightarrow> world \<Rightarrow> (exn + string) \<times> BatchInference \<times> world" where
  "submit_job self w =
     (let w1 = print (esc ''34'' @ ''Starting model invocation job...'' @ esc ''0'') w
      in case call_create_model_invocation_job (bedrock_client self) (job_request_of self) w1 of
           (Inl e, w2) \<Rightarrow> (Inl e, self, w2)
         | (Inr response, w2) \<Rightarrow>
             (case map_of response ''jobArn'' of
                None \<Rightarrow> (Inl (KeyError ''jobArn''), self, w2)
              | Some jobArn \<Rightarrow>
                  (Inr jobArn, self,
                   print (''Model invocation job created with ARN: '' @ jobArn) w2)))"

text \<open>
  Lines 123 to 132, then \<open>submit_job\<close>. \<open>not input_jsonl_yes_no\<close> holds of the empty
  list.
\<close>

definition start_batch_inference_job ::
    "list_obj_s3_fn \<Rightarrow> BatchInference \<Rightarrow> world \<Rightarrow> (exn + string) \<times> BatchInference \<times> world" where
  "start_batch_inference_job list_obj_s3 self w =
     (case call_list_obj_s3 list_obj_s3 (s3_client self) (bucket_name self) ''input.jsonl'' w of
        (Inl e, w1) \<Rightarrow> (Inl e, self, w1)
      | (Inr input_jsonl_yes_no, w1) \<Rightarrow>
          (if input_jsonl_yes_no = []
           then (case create_input_jsonl list_obj_s3 self
                        (print (esc ''31'' @ ''Input jsonl file does not exist. Creating new one...''
                                @ esc ''0'') w1) of
                   (Inl e, self1, w2) \<Rightarrow> (Inl e, self1, w2)
                 | (Inr _, self1, w2) \<Rightarrow> submit_job self1 w2)
           else submit_job self
                  (print (esc ''32'' @ ''Input jsonl file already exists. No need to create a new one.''
                          @ esc ''0'') w1)))"

section \<open>Reading the results\<close>

text \<open>
  The definitions of this section are not part of the program: they are the
  vocabulary in which its properties are stated.
\<close>

text \<open>The calls a run has added to the history.\<close>

definition new_events :: "world \<Rightarrow> world \<Rightarrow> event list" where
  "new_events w w' = drop (length (events w)) (events w')"

definition new_file_events :: "world \<Rightarrow> world \<Rightarrow> file_event list" where
  "new_file_events w w' = drop (length (file_events w)) (file_events w')"

text \<open>A write of a local file that raised.\<close>

fun write_failed :: "file_event \<Rightarrow> bool" where
  "write_failed (WriteFile name f (Inl e)) = True"
| "write_failed _ = False"

fun is_create_job :: "event \<Rightarrow> bool" where
  "is_create_job (CreateModelInvocationJob req r) = True"
| "is_create_job _ = False"

text \<open>A listing or a read of the store that raised.\<close>

fun read_failed :: "event \<Rightarrow> bool" where
  "read_failed (ListObjS3 bucket folder (Inl e)) = True"
| "read_failed (GetObject bucket key (Inl e)) = True"
| "read_failed _ = False"

text \<open>
  The successful reads of the keys \<open>keys\<close> with the bytes \<open>bs\<close>, the records built
  from them, and the text written for them.
\<close>

definition fetched :: "BatchInference \<Rightarrow> string list \<Rightarrow> bytes list \<Rightarrow> event list" where
  "fetched self keys bs = map2 (\<lambda>k b. GetObject (bucket_name self) k (Inr b)) keys bs"

definition records_of :: "BatchInference \<Rightarrow> string list \<Rightarrow> bytes list \<Rightarrow> json list" where
  "records_of self keys bs = map2 (json_obj self) keys bs"

definition request_file :: "BatchInference \<Rightarrow> string list \<Rightarrow> bytes list \<Rightarrow> string" where
  "request_file self keys bs = write_records (records_of self keys bs) []"

text \<open>The lines of a text file: maximal runs of characters ended by a line feed.\<close>

fun split_lines :: "string \<Rightarrow> string \<Rightarrow> string list" where
  "split_lines line [] = (if line = [] then [] else [line])"
| "split_lines line (c # cs) =
     (if c = CHR 0x0A then line # split_lines [] cs else split_lines (line @ [c]) cs)"

definition readlines :: "string \<Rightarrow> string list" where
  "readlines f = split_lines [] f"

text \<open>Access to a JSON value: \<open>j[k]\<close> on a dictionary, \<open>j[0]\<close> on a list, a string.\<close>

fun jget :: "string \<Rightarrow> json \<Rightarrow> json option" where
  "jget k (JDict kvs) = map_of kvs k"
| "jget k _ = None"

fun jfirst :: "json \<Rightarrow> json option" where
  "jfirst (JList (x # xs)) = Some x"
| "jfirst _ = None"

fun jstr :: "json \<Rightarrow> string option" where
  "jstr (JStr s) = Some s"
| "jstr _ = None"

definition record_id :: "json \<Rightarrow> string option" where
  "record_id j = Option.bind (jget ''recordId'' j) jstr"

text \<open>\<open>j["modelInput"]["messages"][0]["content"][0]["source"]["data"]\<close>\<close>

definition data_field :: "json \<Rightarrow> string option" where
  "data_field j =
     Option.bind (Option.bind (Option.bind (Option.bind (Option.bind (Option.bind (Option.bind
       (jget ''modelInput'' j) (jget ''messages'')) jfirst) (jget ''content'')) jfirst)
       (jget ''source'')) (jget ''data'')) jstr"

text \<open>The characters \<open>' '\<close> to \<open>'~'\<close>.\<close>

definition printable :: "char \<Rightarrow> bool" where
  "printable c = (0x20 \<le> (of_char c :: nat) \<and> (of_char c :: nat) \<le> 0x7E)"

text \<open>What \<open>start_batch_inference_job\<close> makes of the response of the service.\<close>

definition jobArn_of :: "exn + (string \<times> string) list \<Rightarrow> exn + string" where
  "jobArn_of r =
     (case r of
        Inl e \<Rightarrow> Inl e
      | Inr response \<Rightarrow>
          (case map_of response ''jobArn'' of
             None \<Rightarrow> Inl (KeyError ''jobArn'')
           | Some jobArn \<Rightarrow> Inr jobArn))"

text \<open>
  The text of one line of the request file as the interface fixes it, for a record
  identifier, a system prompt and a base64 text.
\<close>

definition quoted :: "string \<Rightarrow> string" where
  "quoted s = [CHR 0x22] @ s @ [CHR 0x22]"

definition wire_line :: "string \<Rightarrow> string \<Rightarrow> string \<Rightarrow> string" where
  "wire_line recordId system data =
     ''{'' @ quoted ''recordId'' @ '': '' @ encode_basestring_ascii recordId @ '', ''
     @ quoted ''modelInput'' @ '': {''
     @ quoted ''anthropic_version'' @ '': '' @ quoted ''bedrock-2023-05-31'' @ '', ''
     @ quoted ''max_tokens'' @ '': 1024, ''
     @ quoted ''system'' @ '': '' @ encode_basestring_ascii system @ '', ''
     @ quoted ''messages'' @ '': [{''
     @ quoted ''role'' @ '': '' @ quoted ''user'' @ '', ''
     @ quoted ''content'' @ '': [{''
     @ quoted ''type'' @ '': '' @ quoted ''image'' @ '', ''
     @ quoted ''source'' @ '': {''
     @ quoted ''type'' @ '': '' @ quoted ''base64'' @ '', ''
     @ quoted ''media_type'' @ '': '' @ quoted ''image/jpeg'' @ '', ''
     @ quoted ''data'' @ '': '' @ quoted data @ ''}}]}]}}''"

text \<open>
  Reading the \<open>recordId\<close> off the text of a line: the line starts with
  \<open>{"recordId": "\<close>, and the string that follows is decoded as \<open>json.loads\<close> decodes a
  string (\<open>json.decoder.py_scanstring\<close>, strict), up to its closing quote. A \<open>\uXXXX\<close>
  escape of a code point above 255 is outside the strings modelled here.
\<close>

definition hex_value :: "char \<Rightarrow> nat option" where
  "hex_value c =
     (case index_of c ''0123456789abcdef'' of
        Some n \<Rightarrow> Some n
      | None \<Rightarrow> index_of c ''0123456789ABCDEF'')"

definition short_escape :: "char \<Rightarrow> char option" where
  "short_escape d =
     (if d = CHR 0x22 then Some (CHR 0x22)
      else if d = CHR 0x5C then Some (CHR 0x5C)
      else if d = CHR ''/'' then Some CHR ''/''
      else if d = CHR ''b'' then Some (CHR 0x08)
      else if d = CHR ''f'' then Some (CHR 0x0C)
      else if d = CHR ''n'' then Some (CHR 0x0A)
      else if d = CHR ''r'' then Some (CHR 0x0D)
      else if d = CHR ''t'' then Some (CHR 0x09)
      else None)"

definition hex4 :: "char \<Rightarrow> char \<Rightarrow> char \<Rightarrow> char \<Rightarrow> nat option" where
  "hex4 h1 h2 h3 h4 =
     (case (hex_value h1, hex_value h2, hex_value h3, hex_value h4) of
        (Some a, Some b, Some c, Some d) \<Rightarrow> Some (((a * 16 + b) * 16 + c) * 16 + d)
      | _ \<Rightarrow> None)"

fun scanstring :: "string \<Rightarrow> (string \<times> string) option" where
  "scanstring [] = None"
| "scanstring (c # cs) =
     (if c = CHR 0x22 then Some ([], cs)
      else if c = CHR 0x5C then
        (case cs of
           [] \<Rightarrow> None
         | d # ds \<Rightarrow>
             if d = CHR ''u'' then
               (case ds of
                  h1 # h2 # h3 # h4 # rest \<Rightarrow>
                    (case hex4 h1 h2 h3 h4 of
                       None \<Rightarrow> None
                     | Some n \<Rightarrow>
                         if n < 256
                         then map_option (\<lambda>(s, r). (char_of n # s, r)) (scanstring rest)
                         else None)
                | _ \<Rightarrow> None)
             else (case short_escape d of
                     None \<Rightarrow> None
                   | Some x \<Rightarrow> map_option (\<lambda>(s, r). (x # s, r)) (scanstring ds)))
      else if (of_char c :: nat) < 0x20 then None
      else map_option (\<lambda>(s, r). (c # s, r)) (scanstring cs))"

definition line_record_id :: "string \<Rightarrow> string option" where
  "line_record_id line =
     (let p = ''{'' @ quoted ''recordId'' @ '': '' @ [CHR 0x22]
      in if take (length p) line = p
         then map_option fst (scanstring (drop (length p) line))
         else None)"

section \<open>A concrete store and service\<close>

text \<open>
  A bucket with two images and no request file, a service that answers with a job ARN,
  and variants in which one call raises. They serve as concrete inputs.
\<close>

definition demo_s3 :: s3_client_obj where
  "demo_s3 =
     \<lparr>get_object = (\<lambda>h bucket key.
          if key = ''images/a.jpg'' then Inr [0x4D, 0x61]
          else if key = ''images/b.jpg'' then Inr [0xFF]
          else if key = ''old/a.jpg'' then Inr [0x00]
          else Inl (Exception ''NoSuchKey'')),
      put_object = (\<lambda>h bucket key body. Inr ())\<rparr>"

definition demo_s3_no_upload :: s3_client_obj where
  "demo_s3_no_upload = demo_s3\<lparr>put_object := (\<lambda>h bucket key body. Inl (Exception ''AccessDenied''))\<rparr>"

definition demo_bedrock :: bedrock_client_obj where
  "demo_bedrock = \<lparr>create_model_invocation_job = (\<lambda>h req. Inr [(''jobArn'', ''arn:job/1'')])\<rparr>"

definition demo_bedrock_down :: bedrock_client_obj where
  "demo_bedrock_down = \<lparr>create_model_invocation_job = (\<lambda>h req. Inl (Exception ''Throttled''))\<rparr>"

definition demo_list :: list_obj_s3_fn where
  "demo_list client h bucket folder =
     (if folder = ''input.jsonl'' then Inr []
      else if folder = ''images/'' then Inr [''images/a.jpg'', ''images/b.jpg'']
      else if folder = ''dup/'' then Inr [''images/a.jpg'', ''old/a.jpg'']
      else if folder = ''missing/'' then Inr [''images/a.jpg'', ''gone.jpg'']
      else if folder = ''empty/'' then Inr []
      else Inl (Exception ''NoSuchBucket''))"

definition demo_list_present :: list_obj_s3_fn where
  "demo_list_present client h bucket folder =
     (if folder = ''input.jsonl'' then Inr [''input.jsonl''] else demo_list client h bucket folder)"

definition demo_self :: BatchInference where
  "demo_self = init demo_bedrock demo_s3 ''bkt'' ''images/'' ''out/'' ''model-1'' ''Describe''
                 ''arn:role'' ''job-1''"

definition demo_self_dup :: BatchInference where
  "demo_self_dup = demo_self\<lparr>folder_name := ''dup/''\<rparr>"

definition demo_self_missing :: BatchInference where
  "demo_self_missing = demo_self\<lparr>folder_name := ''missing/''\<rparr>"

definition demo_self_empty :: BatchInference where
  "demo_self_empty = demo_self\<lparr>folder_name := ''empty/''\<rparr>"

definition demo_self_nowhere :: BatchInference where
  "demo_self_nowhere = demo_self\<lparr>folder_name := ''nowhere/''\<rparr>"

definition demo_self_no_upload :: BatchInference where
  "demo_self_no_upload = demo_self\<lparr>s3_client := demo_s3_no_upload\<rparr>"

definition demo_self_down :: BatchInference where
  "demo_self_down = demo_self\<lparr>bedrock_client := demo_bedrock_down\<rparr>"

definition demo_world :: world where
  "demo_world = \<lparr>events = [], stdout = [], files = Map.empty, file_events = [],
                 write_error = (\<lambda>name. None)\<rparr>"

text \<open>A working directory in which \<open>input.jsonl\<close> is a directory.\<close>

definition demo_world_dir :: world where
  "demo_world_dir =
     demo_world\<lparr>write_error := (\<lambda>name.
        if name = ''input.jsonl''
        then Some (OSError ''[Errno 21] Is a directory: input.jsonl'', None)
        else None)\<rparr>"

section \<open>Properties of the library functions\<close>


lemma index_of_nth:
  "distinct xs \<Longrightarrow> i < length xs \<Longrightarrow> index_of (xs ! i) xs = Some i"
proof (induction xs arbitrary: i)
  case Nil
  then show ?case by simp
next
  case (Cons y ys)
  show ?case
  proof (cases i)
    case 0
    then show ?thesis by simp
  next
    case (Suc j)
    with Cons.prems have "ys ! j \<in> set ys" "y \<notin> set ys" "j < length ys" "distinct ys"
      by auto
    with Cons.IH [of j] Suc show ?thesis by auto
  qed
qed

lemma index_of_None: "x \<notin> set xs \<Longrightarrow> index_of x xs = None"
  by (induction xs) auto

lemma length_table: "length table_b2a_base64 = 64"
  by (simp add: table_b2a_base64_def)

lemma distinct_table: "distinct table_b2a_base64"
  by (simp add: table_b2a_base64_def)

lemma pad_not_in_table: "CHR ''='' \<notin> set table_b2a_base64"
  by (simp add: table_b2a_base64_def)

lemma b64index_b64char: "i < 64 \<Longrightarrow> b64index (b64char i) = Some i"
  by (simp add: b64index_def b64char_def index_of_nth distinct_table length_table)

lemma b64char_in_table: "i < 64 \<Longrightarrow> b64char i \<in> set table_b2a_base64"
  by (simp add: b64char_def length_table)

lemma b64char_not_pad: "i < 64 \<Longrightarrow> b64char i \<noteq> CHR ''=''"
  using pad_not_in_table b64char_in_table [of i] by metis

lemma byte_bound: "unat (a :: byte) < 256"
  using unsigned_less [of a, where 'a = nat] by simp

lemma div_add_small: "q < m \<Longrightarrow> (k * m + q) div m = (k::nat)"
  by simp

lemma mod_add_small: "q < m \<Longrightarrow> (k * m + q) mod m = (q::nat)"
  by simp

lemma hi2: "x < 256 \<Longrightarrow> x div 4 < (64::nat)" by simp
lemma hi4: "x < 256 \<Longrightarrow> x div 16 < (16::nat)" by simp
lemma hi6: "x < 256 \<Longrightarrow> x div 64 < (4::nat)" by simp

lemma pack_bound: "k < n \<Longrightarrow> q < m \<Longrightarrow> k * m + q < n * (m::nat)"
proof -
  assume "k < n" "q < m"
  then have "k * m + q < k * m + m" by simp
  also have "\<dots> = Suc k * m" by simp
  also have "\<dots> \<le> n * m" using \<open>k < n\<close> by (intro mult_le_mono1) simp
  finally show ?thesis .
qed

lemma sextet_bounds:
  fixes a b c :: byte
  shows "unat a div 4 < 64" "(unat a mod 4) * 16 < 64"
    "(unat a mod 4) * 16 + unat b div 16 < 64"
    "(unat b mod 16) * 4 < 64" "(unat b mod 16) * 4 + unat c div 64 < 64"
    "unat c mod 64 < 64"
proof -
  show "unat a div 4 < 64" using byte_bound [of a] by simp
  show "(unat a mod 4) * 16 + unat b div 16 < 64"
    using pack_bound [of "unat a mod 4" 4 "unat b div 16" 16] hi4 [OF byte_bound [of b]]
    by simp
  show "(unat a mod 4) * 16 < 64"
    using pack_bound [of "unat a mod 4" 4 0 16] by simp
  show "(unat b mod 16) * 4 + unat c div 64 < 64"
    using pack_bound [of "unat b mod 16" 16 "unat c div 64" 4] hi6 [OF byte_bound [of c]]
    by simp
  show "(unat b mod 16) * 4 < 64"
    using pack_bound [of "unat b mod 16" 16 0 4] by simp
  show "unat c mod 64 < 64" by simp
qed

lemma regroup:
  fixes a b c :: byte
  shows "unat a div 4 * 4 + (unat a mod 4 * 16 + unat b div 16) div 16 = unat a"
    and "unat a div 4 * 4 + (unat a mod 4 * 16) div 16 = unat a"
    and "(unat a mod 4 * 16 + unat b div 16) mod 16 * 16 + (unat b mod 16 * 4 + unat c div 64) div 4 = unat b"
    and "(unat a mod 4 * 16 + unat b div 16) mod 16 * 16 + (unat b mod 16 * 4) div 4 = unat b"
    and "(unat b mod 16 * 4 + unat c div 64) mod 4 * 64 + unat c mod 64 = unat c"
proof -
  have b4: "unat b div 16 < 16" by (rule hi4 [OF byte_bound])
  have c6: "unat c div 64 < 4" by (rule hi6 [OF byte_bound])
  show "unat a div 4 * 4 + (unat a mod 4 * 16 + unat b div 16) div 16 = unat a"
    by (simp add: div_add_small [OF b4])
  show "unat a div 4 * 4 + (unat a mod 4 * 16) div 16 = unat a"
    by simp
  show "(unat a mod 4 * 16 + unat b div 16) mod 16 * 16 + (unat b mod 16 * 4 + unat c div 64) div 4 = unat b"
    using b4 c6 by (simp add: div_add_small [OF c6])
  show "(unat a mod 4 * 16 + unat b div 16) mod 16 * 16 + (unat b mod 16 * 4) div 4 = unat b"
    using b4 by simp
  show "(unat b mod 16 * 4 + unat c div 64) mod 4 * 64 + unat c mod 64 = unat c"
    using c6 by simp
qed

lemma decode_group_idx3:
  assumes "n0 < 64" "n1 < 64" "n2 < 64" "n3 < 64"
  shows "decode_group (b64char n0) (b64char n1) (b64char n2) (b64char n3) =
    Some [of_nat (n0 * 4 + n1 div 16), of_nat ((n1 mod 16) * 16 + n2 div 4),
          of_nat ((n2 mod 4) * 64 + n3)]"
  using assms unfolding decode_group_def
  by (simp only: b64index_b64char b64char_not_pad prod.case option.case if_False simp_thms)

lemma decode_group_idx2:
  assumes "n0 < 64" "n1 < 64" "n2 < 64"
  shows "decode_group (b64char n0) (b64char n1) (b64char n2) (CHR ''='') =
    Some [of_nat (n0 * 4 + n1 div 16), of_nat ((n1 mod 16) * 16 + n2 div 4)]"
  using assms unfolding decode_group_def
  by (simp only: b64index_b64char b64char_not_pad prod.case option.case if_False if_True simp_thms)

lemma decode_group_idx1:
  assumes "n0 < 64" "n1 < 64"
  shows "decode_group (b64char n0) (b64char n1) (CHR ''='') (CHR ''='') =
    Some [of_nat (n0 * 4 + n1 div 16)]"
  using assms unfolding decode_group_def
  by (simp only: b64index_b64char prod.case option.case if_True simp_thms)

lemma of_nat_unat_byte: "of_nat (unat a) = (a :: byte)"
  by simp

lemma decode_group_full:
  fixes a b c :: byte
  shows "decode_group (b64char (unat a div 4)) (b64char ((unat a mod 4) * 16 + unat b div 16))
      (b64char ((unat b mod 16) * 4 + unat c div 64)) (b64char (unat c mod 64)) = Some [a, b, c]"
  by (simp only: decode_group_idx3 sextet_bounds regroup of_nat_unat_byte)

lemma decode_group_two:
  fixes a b :: byte
  shows "decode_group (b64char (unat a div 4)) (b64char ((unat a mod 4) * 16 + unat b div 16))
      (b64char ((unat b mod 16) * 4)) (CHR ''='') = Some [a, b]"
  by (simp only: decode_group_idx2 sextet_bounds regroup of_nat_unat_byte)

lemma decode_group_one:
  fixes a :: byte
  shows "decode_group (b64char (unat a div 4)) (b64char ((unat a mod 4) * 16))
      (CHR ''='') (CHR ''='') = Some [a]"
  by (simp only: decode_group_idx1 sextet_bounds regroup of_nat_unat_byte)

lemma b64decode_b64encode: "b64decode (b64encode bs) = Some bs"
proof (induction bs rule: b64encode.induct)
  case 1
  show ?case by simp
next
  case (2 a)
  show ?case by (simp add: decode_group_one)
next
  case (3 a b)
  show ?case by (simp add: decode_group_two)
next
  case (4 a b c rest)
  then show ?case by (simp add: decode_group_full b64char_not_pad sextet_bounds)
qed

lemma hex_digit_printable: "n < 16 \<Longrightarrow> printable (hex_digit n)"
proof -
  assume "n < 16"
  then have "hex_digit n \<in> set ''0123456789abcdef''"
    unfolding hex_digit_def by (intro nth_mem) simp
  moreover have "\<forall>c \<in> set ''0123456789abcdef''. printable c"
    by (simp add: printable_def)
  ultimately show ?thesis by blast
qed

lemma of_char_div_16: "(of_char c :: nat) div 16 < 16"
  by (rule hi4 [OF nat_of_char_less_256])

lemma escape_char_cases:
  "escape_char c = [c] \<and> printable c
   \<or> (\<exists>d. escape_char c = [CHR 0x5C, d] \<and> printable d)
   \<or> escape_char c = [CHR 0x5C, CHR ''u'', CHR ''0'', CHR ''0'',
            hex_digit ((of_char c :: nat) div 16), hex_digit ((of_char c :: nat) mod 16)]"
  unfolding escape_char_def by (simp add: printable_def)

lemma escape_char_printable: "x \<in> set (escape_char c) \<Longrightarrow> printable x"
proof -
  assume x: "x \<in> set (escape_char c)"
  have bs: "printable (CHR 0x5C)" "printable CHR ''u''" "printable CHR ''0''"
    by (simp_all add: printable_def)
  have hx: "printable (hex_digit ((of_char c :: nat) div 16))"
    "printable (hex_digit ((of_char c :: nat) mod 16))"
    by (simp_all add: hex_digit_printable of_char_div_16)
  from escape_char_cases [of c] x bs hx show ?thesis by auto
qed

lemma encode_basestring_ascii_printable:
  "x \<in> set (encode_basestring_ascii s) \<Longrightarrow> printable x"
proof -
  assume "x \<in> set (encode_basestring_ascii s)"
  then have "x = CHR 0x22 \<or> (\<exists>c \<in> set s. x \<in> set (escape_char c))"
    unfolding encode_basestring_ascii_def by auto
  moreover have "printable (CHR 0x22)" by (simp add: printable_def)
  ultimately show ?thesis using escape_char_printable by blast
qed

lemma nat_repr_printable: "x \<in> set (nat_repr n) \<Longrightarrow> printable x"
proof (induction n rule: nat_repr.induct)
  case (1 n)
  show ?case
  proof (cases "n < 10")
    case True
    with "1.prems" have "x = hex_digit n" by (subst (asm) nat_repr.simps) simp
    with True show ?thesis by (simp add: hex_digit_printable)
  next
    case False
    with "1.prems" have "x \<in> set (nat_repr (n div 10)) \<or> x = hex_digit (n mod 10)"
      by (subst (asm) nat_repr.simps) auto
    moreover have "n mod 10 < 16" by (rule less_trans [of _ 10]) simp_all
    ultimately show ?thesis using "1.IH" [OF False] by (auto simp: hex_digit_printable)
  qed
qed

lemma int_repr_printable: "x \<in> set (int_repr i) \<Longrightarrow> printable x"
proof -
  assume "x \<in> set (int_repr i)"
  then have "x = CHR ''-'' \<or> (\<exists>n. x \<in> set (nat_repr n))"
    unfolding int_repr_def by (auto split: if_splits)
  moreover have "printable CHR ''-''" by (simp add: printable_def)
  ultimately show ?thesis using nat_repr_printable by blast
qed

lemma join_printable:
  "\<forall>x \<in> set sep. printable x \<Longrightarrow> \<forall>s \<in> set xs. \<forall>x \<in> set s. printable x \<Longrightarrow>
   \<forall>x \<in> set (join sep xs). printable x"
  by (induction sep xs rule: join.induct) auto

lemma dumps_printable_all:
  "(\<forall>x \<in> set (dumps j). printable x)"
  "(\<forall>s \<in> set (dumps_items kvs). \<forall>x \<in> set s. printable x)"
  "(\<forall>s \<in> set (dumps_elems js). \<forall>x \<in> set s. printable x)"
proof (induction j and kvs and js rule: dumps_dumps_items_dumps_elems.induct)
  case (1 s)
  show ?case using encode_basestring_ascii_printable by simp
next
  case (2 i)
  show ?case using int_repr_printable by simp
next
  case (3 xs)
  have sep: "\<forall>x \<in> set '', ''. printable x" by (simp add: printable_def)
  have br: "printable CHR ''[''" "printable CHR '']''" by (simp_all add: printable_def)
  show ?case using join_printable [OF sep 3] br by auto
next
  case (4 kvs)
  have sep: "\<forall>x \<in> set '', ''. printable x" by (simp add: printable_def)
  have br: "printable CHR ''{''" "printable CHR ''}''" by (simp_all add: printable_def)
  show ?case using join_printable [OF sep 4] br by auto
next
  case 5
  show ?case by simp
next
  case (6 kv kvs)
  have br: "printable CHR '':''" "printable CHR '' ''" by (simp_all add: printable_def)
  show ?case using 6 br encode_basestring_ascii_printable by auto
next
  case 7
  show ?case by simp
next
  case (8 x xs)
  then show ?case by simp
qed

lemma newline_not_printable: "\<not> printable (CHR 0x0A)"
  by (simp add: printable_def)

lemma dumps_no_newline: "CHR 0x0A \<notin> set (dumps j)"
  using dumps_printable_all(1) [of j] newline_not_printable by blast

lemma split_lines_line:
  "CHR 0x0A \<notin> set l \<Longrightarrow> split_lines cur (l @ CHR 0x0A # rest) = (cur @ l) # split_lines [] rest"
  by (induction l arbitrary: cur) auto

lemma readlines_concat:
  "\<forall>l \<in> set ls. CHR 0x0A \<notin> set l \<Longrightarrow>
   readlines (concat (map (\<lambda>l. l @ [CHR 0x0A]) ls)) = ls"
  unfolding readlines_def
  by (induction ls) (simp_all add: split_lines_line)

lemma write_records_eq:
  "write_records rs f = f @ concat (map (\<lambda>r. dumps r @ [CHR 0x0A]) rs)"
  by (induction rs arbitrary: f) simp_all

lemma readlines_write_records: "readlines (write_records rs []) = map dumps rs"
proof -
  have eq: "write_records rs [] = concat (map (\<lambda>l. l @ [CHR 0x0A]) (map dumps rs))"
    by (simp add: write_records_eq comp_def)
  have "\<forall>l \<in> set (map dumps rs). CHR 0x0A \<notin> set l"
    using dumps_no_newline by auto
  then show ?thesis unfolding eq by (rule readlines_concat)
qed

lemma escape_char_table: "\<forall>c \<in> set (table_b2a_base64 @ ''=''). escape_char c = [c]"
  by (simp add: table_b2a_base64_def escape_char_def)

lemma b64encode_alphabet: "set (b64encode bs) \<subseteq> set (table_b2a_base64 @ ''='')"
  by (induction bs rule: b64encode.induct) (simp_all add: b64char_in_table sextet_bounds)

lemma concat_map_id: "\<forall>c \<in> set s. f c = [c] \<Longrightarrow> concat (map f s) = s"
  by (induction s) simp_all

lemma encode_basestring_ascii_b64encode:
  "encode_basestring_ascii (b64encode bs) = [CHR 0x22] @ b64encode bs @ [CHR 0x22]"
  unfolding encode_basestring_ascii_def
  using concat_map_id [of "b64encode bs" escape_char] escape_char_table b64encode_alphabet [of bs]
  by (metis subsetD)

section \<open>Properties of the operations\<close>

lemma call_get_object_eq:
  "call_get_object c b k w = (r, w') \<longleftrightarrow>
     r = get_object c (events w) b k \<and> w' = w\<lparr>events := events w @ [GetObject b k r]\<rparr>"
  by (auto simp: call_get_object_def Let_def)

lemma build_records_Inr:
  "build_records self keys acc w = (Inr recs, w') \<Longrightarrow>
   \<exists>bs. length bs = length keys \<and> recs = acc @ records_of self keys bs \<and>
        w' = w\<lparr>events := events w @ fetched self keys bs\<rparr>"
proof (induction keys arbitrary: acc w)
  case Nil
  then show ?case by (simp add: records_of_def fetched_def)
next
  case (Cons k ks)
  obtain r w1 where g: "call_get_object (s3_client self) (bucket_name self) k w = (r, w1)"
    by (cases "call_get_object (s3_client self) (bucket_name self) k w")
  with Cons.prems obtain b where r: "r = Inr b"
    by (cases r) auto
  from g r have w1: "w1 = w\<lparr>events := events w @ [GetObject (bucket_name self) k (Inr b)]\<rparr>"
    by (simp add: call_get_object_eq)
  from Cons.prems g r
  have "build_records self ks (acc @ [json_obj self k b]) w1 = (Inr recs, w')"
    by simp
  from Cons.IH [OF this] obtain bs where bs: "length bs = length ks"
    "recs = (acc @ [json_obj self k b]) @ records_of self ks bs"
    "w' = w1\<lparr>events := events w1 @ fetched self ks bs\<rparr>"
    by blast
  have "length (b # bs) = length (k # ks)" using bs(1) by simp
  moreover have "recs = acc @ records_of self (k # ks) (b # bs)"
    using bs(2) by (simp add: records_of_def)
  moreover have "w' = w\<lparr>events := events w @ fetched self (k # ks) (b # bs)\<rparr>"
    using bs(3) w1 by (simp add: fetched_def)
  ultimately show ?case by blast
qed

lemma build_records_Inl:
  "build_records self keys acc w = (Inl e, w') \<Longrightarrow>
   \<exists>n bs. n < length keys \<and> length bs = n \<and>
        w' = w\<lparr>events := events w @ fetched self (take n keys) bs
                            @ [GetObject (bucket_name self) (keys ! n) (Inl e)]\<rparr>"
proof (induction keys arbitrary: acc w)
  case Nil
  then show ?case by simp
next
  case (Cons k ks)
  obtain r w1 where g: "call_get_object (s3_client self) (bucket_name self) k w = (r, w1)"
    by (cases "call_get_object (s3_client self) (bucket_name self) k w")
  then have w1: "w1 = w\<lparr>events := events w @ [GetObject (bucket_name self) k r]\<rparr>"
    by (simp add: call_get_object_eq)
  show ?case
  proof (cases r)
    case (Inl e')
    with Cons.prems g have "e' = e" "w' = w1" by simp_all
    with w1 Inl
    have "0 < length (k # ks) \<and> length ([] :: bytes list) = 0 \<and>
        w' = w\<lparr>events := events w @ fetched self (take 0 (k # ks)) []
                            @ [GetObject (bucket_name self) ((k # ks) ! 0) (Inl e)]\<rparr>"
      by (simp add: fetched_def)
    then show ?thesis by blast
  next
    case (Inr b)
    with Cons.prems g
    have "build_records self ks (acc @ [json_obj self k b]) w1 = (Inl e, w')"
      by simp
    from Cons.IH [OF this] obtain n bs where nb: "n < length ks" "length bs = n"
      "w' = w1\<lparr>events := events w1 @ fetched self (take n ks) bs
                            @ [GetObject (bucket_name self) (ks ! n) (Inl e)]\<rparr>"
      by blast
    have "Suc n < length (k # ks) \<and> length (b # bs) = Suc n \<and>
        w' = w\<lparr>events := events w @ fetched self (take (Suc n) (k # ks)) (b # bs)
                            @ [GetObject (bucket_name self) ((k # ks) ! Suc n) (Inl e)]\<rparr>"
      using nb w1 Inr by (simp add: fetched_def)
    then show ?thesis by blast
  qed
qed


lemma new_events_append: "events w' = events w @ xs \<Longrightarrow> new_events w w' = xs"
  by (simp add: new_events_def)

lemma new_file_events_append:
  "file_events w' = file_events w @ xs \<Longrightarrow> new_file_events w w' = xs"
  by (simp add: new_file_events_def)

lemma upload_input_jsonl_eq:
  assumes "files w ''input.jsonl'' = Some f"
  shows "\<exists>pr. pr = put_object (s3_client self) (events w) (bucket_name self) ''input.jsonl'' f \<and>
     events (upload_input_jsonl self w) =
       events w @ [PutObject (bucket_name self) ''input.jsonl'' f pr] \<and>
     files (upload_input_jsonl self w) = files w \<and>
     length (stdout (upload_input_jsonl self w)) = length (stdout w) + 2 \<and>
     last (stdout (upload_input_jsonl self w)) =
       (case pr of Inl e \<Rightarrow> str_exn e | Inr u \<Rightarrow> esc ''32'' @ ''Uploaded file'' @ esc ''0'') \<and>
     file_events (upload_input_jsonl self w) = file_events w \<and>
     write_error (upload_input_jsonl self w) = write_error w"
  using assms
  by (cases "put_object (s3_client self) (events w) (bucket_name self) ''input.jsonl'' f")
     (simp_all add: upload_input_jsonl_def call_put_object_def print_def Let_def)

lemma create_input_jsonl_self:
  "create_input_jsonl L self w = (r, self', w') \<Longrightarrow> self' = self"
  by (auto simp: create_input_jsonl_def Let_def split: prod.splits sum.splits)

lemma create_input_jsonl_list_failed:
  assumes "L (s3_client self) (events w) (bucket_name self) (folder_name self) = Inl e"
  shows "create_input_jsonl L self w =
    (Inl e, self, w\<lparr>events := events w @ [ListObjS3 (bucket_name self) (folder_name self) (Inl e)]\<rparr>)"
  using assms by (simp add: create_input_jsonl_def call_list_obj_s3_def Let_def)

text \<open>What \<open>create_input_jsonl\<close> does once the listing has returned and the loop has run.\<close>

lemma create_input_jsonl_after_loop:
  assumes "L (s3_client self) (events w) (bucket_name self) (folder_name self) = Inr keys"
  shows "create_input_jsonl L self w =
    (case build_records self keys []
            (w\<lparr>events := events w
                 @ [ListObjS3 (bucket_name self) (folder_name self) (Inr keys)]\<rparr>) of
       (Inl e, w2) \<Rightarrow> (Inl e, self, w2)
     | (Inr input_json_file, w2) \<Rightarrow>
         (case write_error w2 ''input.jsonl'' of
            Some (e, left) \<Rightarrow>
              (Inl e, self,
               w2\<lparr>files := (files w2)(''input.jsonl'' := left),
                   file_events := file_events w2
                     @ [WriteFile ''input.jsonl'' (write_records input_json_file []) (Inl e)]\<rparr>)
          | None \<Rightarrow>
              (Inr (), self,
               upload_input_jsonl self
                 (print (esc ''32'' @ ''Created JSONL file and store local copy as input.jsonl''
                         @ esc ''0'')
                    (w2\<lparr>files := (files w2)(''input.jsonl'' \<mapsto> write_records input_json_file []),
                        file_events := file_events w2
                          @ [WriteFile ''input.jsonl'' (write_records input_json_file [])
                               (Inr ())]\<rparr>)))))"
  using assms
  by (simp add: create_input_jsonl_def call_list_obj_s3_def call_write_file_def Let_def
      split: prod.splits sum.splits option.splits)

lemma fetched_elem:
  "ev \<in> set (fetched self keys bs) \<Longrightarrow> \<exists>k b. ev = GetObject (bucket_name self) k (Inr b)"
  by (auto simp: fetched_def dest!: set_zip_leftD elim!: in_set_zipE)

lemma fetched_no_job: "filter is_create_job (fetched self keys bs) = []"
  by (auto simp: filter_empty_conv dest: fetched_elem)

lemma fetched_not_failed: "ev \<in> set (fetched self keys bs) \<Longrightarrow> \<not> read_failed ev"
  by (auto dest: fetched_elem)

lemma length_fetched: "length (fetched self keys bs) = min (length keys) (length bs)"
  by (simp add: fetched_def)

lemma submit_job_eq:
  "submit_job self w =
     (jobArn_of (create_model_invocation_job (bedrock_client self) (events w) (job_request_of self)),
      self,
      snd (snd (submit_job self w)))"
  by (simp add: submit_job_def jobArn_of_def call_create_model_invocation_job_def Let_def print_def
      split: sum.splits option.splits)

lemma submit_job_world:
  "events (snd (snd (submit_job self w))) =
     events w @ [CreateModelInvocationJob (job_request_of self)
       (create_model_invocation_job (bedrock_client self) (events w) (job_request_of self))]"
  "files (snd (snd (submit_job self w))) = files w"
  "file_events (snd (snd (submit_job self w))) = file_events w"
  "write_error (snd (snd (submit_job self w))) = write_error w"
  by (simp_all add: submit_job_def call_create_model_invocation_job_def Let_def print_def
      split: sum.splits option.splits)

lemma submit_job_run:
  assumes "submit_job self w = (r, self', w')"
  shows "self' = self"
    and "r = jobArn_of (create_model_invocation_job (bedrock_client self) (events w) (job_request_of self))"
    and "events w' = events w @ [CreateModelInvocationJob (job_request_of self)
       (create_model_invocation_job (bedrock_client self) (events w) (job_request_of self))]"
    and "files w' = files w"
    and "file_events w' = file_events w"
    and "write_error w' = write_error w"
proof -
  from assms submit_job_eq [of self w] show "self' = self" by simp
  from assms submit_job_eq [of self w]
  show "r = jobArn_of (create_model_invocation_job (bedrock_client self) (events w) (job_request_of self))"
    by simp
  from assms have w': "w' = snd (snd (submit_job self w))" by simp
  show "events w' = events w @ [CreateModelInvocationJob (job_request_of self)
       (create_model_invocation_job (bedrock_client self) (events w) (job_request_of self))]"
    unfolding w' by (rule submit_job_world)
  show "files w' = files w" unfolding w' by (rule submit_job_world)
  show "file_events w' = file_events w" unfolding w' by (rule submit_job_world)
  show "write_error w' = write_error w" unfolding w' by (rule submit_job_world)
qed

lemma start_check_failed:
  assumes "L (s3_client self) (events w) (bucket_name self) ''input.jsonl'' = Inl e"
  shows "start_batch_inference_job L self w =
    (Inl e, self, w\<lparr>events := events w @ [ListObjS3 (bucket_name self) ''input.jsonl'' (Inl e)]\<rparr>)"
  using assms by (simp add: start_batch_inference_job_def call_list_obj_s3_def Let_def)

lemma start_exists:
  assumes "L (s3_client self) (events w) (bucket_name self) ''input.jsonl'' = Inr found"
    and "found \<noteq> []"
  shows "start_batch_inference_job L self w =
    submit_job self
      (print (esc ''32'' @ ''Input jsonl file already exists. No need to create a new one.''
                          @ esc ''0'')
         (w\<lparr>events := events w @ [ListObjS3 (bucket_name self) ''input.jsonl'' (Inr found)]\<rparr>))"
  using assms by (simp add: start_batch_inference_job_def call_list_obj_s3_def Let_def)

lemma start_missing:
  assumes "L (s3_client self) (events w) (bucket_name self) ''input.jsonl'' = Inr []"
  shows "start_batch_inference_job L self w =
    (case create_input_jsonl L self
            (print (esc ''31'' @ ''Input jsonl file does not exist. Creating new one...''
                                @ esc ''0'')
               (w\<lparr>events := events w @ [ListObjS3 (bucket_name self) ''input.jsonl'' (Inr [])]\<rparr>)) of
       (Inl e, self1, w2) \<Rightarrow> (Inl e, self1, w2)
     | (Inr u, self1, w2) \<Rightarrow> submit_job self1 w2)"
  using assms by (simp add: start_batch_inference_job_def call_list_obj_s3_def Let_def)


lemma create_input_jsonl_cases:
  assumes run: "create_input_jsonl L self w = (r, self', w')"
  obtains
    (list_failed) e where
      "L (s3_client self) (events w) (bucket_name self) (folder_name self) = Inl e"
      "r = Inl e"
      "events w' = events w @ [ListObjS3 (bucket_name self) (folder_name self) (Inl e)]"
      "files w' = files w" "stdout w' = stdout w"
      "file_events w' = file_events w" "write_error w' = write_error w"
  | (get_failed) keys n bs e where
      "L (s3_client self) (events w) (bucket_name self) (folder_name self) = Inr keys"
      "n < length keys" "length bs = n" "r = Inl e"
      "events w' = events w @ ListObjS3 (bucket_name self) (folder_name self) (Inr keys)
                # fetched self (take n keys) bs
                @ [GetObject (bucket_name self) (keys ! n) (Inl e)]"
      "files w' = files w" "stdout w' = stdout w"
      "file_events w' = file_events w" "write_error w' = write_error w"
  | (write_failed) keys bs e left where
      "L (s3_client self) (events w) (bucket_name self) (folder_name self) = Inr keys"
      "length bs = length keys" "r = Inl e"
      "events w' = events w @ ListObjS3 (bucket_name self) (folder_name self) (Inr keys)
                # fetched self keys bs"
      "files w' = (files w)(''input.jsonl'' := left)" "stdout w' = stdout w"
      "file_events w' = file_events w
         @ [WriteFile ''input.jsonl'' (request_file self keys bs) (Inl e)]"
      "write_error w ''input.jsonl'' = Some (e, left)" "write_error w' = write_error w"
  | (written) keys bs pr where
      "L (s3_client self) (events w) (bucket_name self) (folder_name self) = Inr keys"
      "length bs = length keys" "r = Inr ()"
      "events w' = events w @ ListObjS3 (bucket_name self) (folder_name self) (Inr keys)
                # fetched self keys bs
                @ [PutObject (bucket_name self) ''input.jsonl'' (request_file self keys bs) pr]"
      "files w' = (files w)(''input.jsonl'' \<mapsto> request_file self keys bs)"
      "length (stdout w') = length (stdout w) + 3"
      "last (stdout w') =
         (case pr of Inl e \<Rightarrow> str_exn e | Inr u \<Rightarrow> esc ''32'' @ ''Uploaded file'' @ esc ''0'')"
      "file_events w' = file_events w
         @ [WriteFile ''input.jsonl'' (request_file self keys bs) (Inr ())]"
      "write_error w ''input.jsonl'' = None" "write_error w' = write_error w"
proof (cases "L (s3_client self) (events w) (bucket_name self) (folder_name self)")
  case (Inl e)
  from run create_input_jsonl_list_failed [where L = L and self = self and w = w, OF Inl]
  have "r = Inl e"
    "w' = w\<lparr>events := events w @ [ListObjS3 (bucket_name self) (folder_name self) (Inl e)]\<rparr>"
    by auto
  with Inl show ?thesis by (intro list_failed [of e]) simp_all
next
  case (Inr keys)
  let ?w1 = "w\<lparr>events := events w @ [ListObjS3 (bucket_name self) (folder_name self) (Inr keys)]\<rparr>"
  obtain r2 w2 where b: "build_records self keys [] ?w1 = (r2, w2)"
    by (cases "build_records self keys [] ?w1")
  note after = create_input_jsonl_after_loop [where L = L and self = self and w = w, OF Inr,
      unfolded b run]
  show ?thesis
  proof (cases r2)
    case (Inl e)
    from build_records_Inl [OF b [unfolded Inl]] obtain n bs where nb:
      "n < length keys" "length bs = n"
      "w2 = ?w1\<lparr>events := events ?w1 @ fetched self (take n keys) bs
                @ [GetObject (bucket_name self) (keys ! n) (Inl e)]\<rparr>"
      by blast
    from after Inl have "r = Inl e" "w' = w2" by simp_all
    with Inr nb show ?thesis by (intro get_failed [of keys n bs e]) simp_all
  next
    case r2: (Inr recs)
    from build_records_Inr [OF b [unfolded r2]] obtain bs where bs: "length bs = length keys"
      "recs = records_of self keys bs" "w2 = ?w1\<lparr>events := events ?w1 @ fetched self keys bs\<rparr>"
      by auto
    let ?f = "request_file self keys bs"
    have f: "write_records recs [] = ?f" by (simp add: request_file_def bs(2))
    have we: "write_error w2 ''input.jsonl'' = write_error w ''input.jsonl''"
      by (simp add: bs(3))
    show ?thesis
    proof (cases "write_error w ''input.jsonl''")
      case (Some el)
      obtain e left where el: "el = (e, left)" by (cases el)
      from after r2 we Some el f have "r = Inl e"
        "w' = w2\<lparr>files := (files w2)(''input.jsonl'' := left),
                 file_events := file_events w2 @ [WriteFile ''input.jsonl'' ?f (Inl e)]\<rparr>"
        by simp_all
      with Inr bs(1,3) Some el show ?thesis
        by (intro write_failed [of keys bs e left]) simp_all
    next
      case None
      let ?w4 = "print (esc ''32'' @ ''Created JSONL file and store local copy as input.jsonl''
                         @ esc ''0'')
                    (w2\<lparr>files := (files w2)(''input.jsonl'' \<mapsto> ?f),
                        file_events := file_events w2
                          @ [WriteFile ''input.jsonl'' ?f (Inr ())]\<rparr>)"
      from after r2 we None f have r: "r = Inr ()" and w': "w' = upload_input_jsonl self ?w4"
        by simp_all
      have f4: "files ?w4 ''input.jsonl'' = Some ?f" by (simp add: print_def)
      from upload_input_jsonl_eq [OF f4, of self] obtain pr where pr:
        "events (upload_input_jsonl self ?w4) =
           events ?w4 @ [PutObject (bucket_name self) ''input.jsonl'' ?f pr]"
        "files (upload_input_jsonl self ?w4) = files ?w4"
        "length (stdout (upload_input_jsonl self ?w4)) = length (stdout ?w4) + 2"
        "last (stdout (upload_input_jsonl self ?w4)) =
           (case pr of Inl e \<Rightarrow> str_exn e | Inr u \<Rightarrow> esc ''32'' @ ''Uploaded file'' @ esc ''0'')"
        "file_events (upload_input_jsonl self ?w4) = file_events ?w4"
        "write_error (upload_input_jsonl self ?w4) = write_error ?w4"
        by blast
      have 1: "events w' = events w @ ListObjS3 (bucket_name self) (folder_name self) (Inr keys)
                # fetched self keys bs
                @ [PutObject (bucket_name self) ''input.jsonl'' ?f pr]"
        unfolding w' pr(1) by (simp add: print_def bs(3))
      have 2: "files w' = (files w)(''input.jsonl'' \<mapsto> ?f)"
        unfolding w' pr(2) by (simp add: print_def bs(3))
      have 3: "length (stdout w') = length (stdout w) + 3"
        unfolding w' pr(3) by (simp add: print_def bs(3))
      have 4: "file_events w' = file_events w @ [WriteFile ''input.jsonl'' ?f (Inr ())]"
        unfolding w' pr(5) by (simp add: print_def bs(3))
      have 5: "write_error w' = write_error w"
        unfolding w' pr(6) by (simp add: print_def bs(3))
      from Inr bs(1) r 1 2 3 pr(4) [folded w'] 4 None 5 show ?thesis
        by (rule written [of keys bs pr])
    qed
  qed
qed

lemma start_batch_inference_job_cases:
  assumes run: "start_batch_inference_job L self w = (r, self', w')"
  obtains
    (check_failed) e where
      "L (s3_client self) (events w) (bucket_name self) ''input.jsonl'' = Inl e"
      "r = Inl e"
      "events w' = events w @ [ListObjS3 (bucket_name self) ''input.jsonl'' (Inl e)]"
      "files w' = files w"
      "file_events w' = file_events w" "write_error w' = write_error w"
  | (exists) found resp where
      "L (s3_client self) (events w) (bucket_name self) ''input.jsonl'' = Inr found"
      "found \<noteq> []" "r = jobArn_of resp"
      "events w' = events w @ [ListObjS3 (bucket_name self) ''input.jsonl'' (Inr found),
                               CreateModelInvocationJob (job_request_of self) resp]"
      "files w' = files w"
      "file_events w' = file_events w" "write_error w' = write_error w"
  | (list_failed) e where
      "L (s3_client self) (events w) (bucket_name self) ''input.jsonl'' = Inr []"
      "L (s3_client self) (events w @ [ListObjS3 (bucket_name self) ''input.jsonl'' (Inr [])])
         (bucket_name self) (folder_name self) = Inl e"
      "r = Inl e"
      "events w' = events w @ [ListObjS3 (bucket_name self) ''input.jsonl'' (Inr []),
                               ListObjS3 (bucket_name self) (folder_name self) (Inl e)]"
      "files w' = files w"
      "file_events w' = file_events w" "write_error w' = write_error w"
  | (get_failed) keys n bs e where
      "L (s3_client self) (events w) (bucket_name self) ''input.jsonl'' = Inr []"
      "L (s3_client self) (events w @ [ListObjS3 (bucket_name self) ''input.jsonl'' (Inr [])])
         (bucket_name self) (folder_name self) = Inr keys"
      "n < length keys" "length bs = n" "r = Inl e"
      "events w' = events w @ ListObjS3 (bucket_name self) ''input.jsonl'' (Inr [])
                # ListObjS3 (bucket_name self) (folder_name self) (Inr keys)
                # fetched self (take n keys) bs
                @ [GetObject (bucket_name self) (keys ! n) (Inl e)]"
      "files w' = files w"
      "file_events w' = file_events w" "write_error w' = write_error w"
  | (write_failed) keys bs e left where
      "L (s3_client self) (events w) (bucket_name self) ''input.jsonl'' = Inr []"
      "L (s3_client self) (events w @ [ListObjS3 (bucket_name self) ''input.jsonl'' (Inr [])])
         (bucket_name self) (folder_name self) = Inr keys"
      "length bs = length keys" "r = Inl e"
      "events w' = events w @ ListObjS3 (bucket_name self) ''input.jsonl'' (Inr [])
                # ListObjS3 (bucket_name self) (folder_name self) (Inr keys)
                # fetched self keys bs"
      "files w' = (files w)(''input.jsonl'' := left)"
      "file_events w' = file_events w
         @ [WriteFile ''input.jsonl'' (request_file self keys bs) (Inl e)]"
      "write_error w ''input.jsonl'' = Some (e, left)" "write_error w' = write_error w"
  | (created) keys bs pr resp where
      "L (s3_client self) (events w) (bucket_name self) ''input.jsonl'' = Inr []"
      "L (s3_client self) (events w @ [ListObjS3 (bucket_name self) ''input.jsonl'' (Inr [])])
         (bucket_name self) (folder_name self) = Inr keys"
      "length bs = length keys" "r = jobArn_of resp"
      "events w' = events w @ ListObjS3 (bucket_name self) ''input.jsonl'' (Inr [])
                # ListObjS3 (bucket_name self) (folder_name self) (Inr keys)
                # fetched self keys bs
                @ [PutObject (bucket_name self) ''input.jsonl'' (request_file self keys bs) pr,
                   CreateModelInvocationJob (job_request_of self) resp]"
      "files w' = (files w)(''input.jsonl'' \<mapsto> request_file self keys bs)"
      "file_events w' = file_events w
         @ [WriteFile ''input.jsonl'' (request_file self keys bs) (Inr ())]"
      "write_error w ''input.jsonl'' = None" "write_error w' = write_error w"
proof (cases "L (s3_client self) (events w) (bucket_name self) ''input.jsonl''")
  case (Inl e)
  from run start_check_failed [where L = L and self = self and w = w, OF Inl]
  have "r = Inl e"
    "w' = w\<lparr>events := events w @ [ListObjS3 (bucket_name self) ''input.jsonl'' (Inl e)]\<rparr>"
    by auto
  with Inl show ?thesis by (intro check_failed [of e]) simp_all
next
  case (Inr found)
  show ?thesis
  proof (cases "found = []")
    case False
    let ?w1 = "print (esc ''32'' @ ''Input jsonl file already exists. No need to create a new one.''
                          @ esc ''0'')
         (w\<lparr>events := events w @ [ListObjS3 (bucket_name self) ''input.jsonl'' (Inr found)]\<rparr>)"
    from run start_exists [where L = L and self = self and w = w, OF Inr False]
    have sj: "submit_job self ?w1 = (r, self', w')" by simp
    have e1: "events ?w1 = events w @ [ListObjS3 (bucket_name self) ''input.jsonl'' (Inr found)]"
      and f1: "files ?w1 = files w"
      and g1: "file_events ?w1 = file_events w" "write_error ?w1 = write_error w"
      by (simp_all add: print_def)
    from submit_job_run(2-6) [OF sj] Inr False e1 f1 g1 show ?thesis
      by (intro exists [of found
            "create_model_invocation_job (bedrock_client self) (events ?w1) (job_request_of self)"])
         simp_all
  next
    case True
    let ?w1 = "print (esc ''31'' @ ''Input jsonl file does not exist. Creating new one...''
                                @ esc ''0'')
               (w\<lparr>events := events w @ [ListObjS3 (bucket_name self) ''input.jsonl'' (Inr [])]\<rparr>)"
    have e1: "events ?w1 = events w @ [ListObjS3 (bucket_name self) ''input.jsonl'' (Inr [])]"
      and f1: "files ?w1 = files w"
      and g1: "file_events ?w1 = file_events w" "write_error ?w1 = write_error w"
      by (simp_all add: print_def)
    note chk = Inr [unfolded True]
    obtain r1 self1 w2 where cr: "create_input_jsonl L self ?w1 = (r1, self1, w2)"
      by (cases "create_input_jsonl L self ?w1")
    have self1: "self1 = self" by (rule create_input_jsonl_self [OF cr])
    from run start_missing [where L = L and self = self and w = w, OF chk] cr
    have st: "(r, self', w') =
        (case r1 of Inl e \<Rightarrow> (Inl e, self1, w2) | Inr u \<Rightarrow> submit_job self1 w2)"
      by (simp split: sum.splits)
    from cr show ?thesis
    proof (cases rule: create_input_jsonl_cases)
      case (list_failed e)
      with st e1 f1 g1 chk show ?thesis by (intro that(3) [of e]) simp_all
    next
      case (get_failed keys n bs e)
      with st e1 f1 g1 chk show ?thesis by (intro that(4) [of keys n bs e]) simp_all
    next
      case (write_failed keys bs e left)
      with st e1 f1 g1 chk show ?thesis by (intro that(5) [of keys bs e left]) simp_all
    next
      case (written keys bs pr)
      with st self1 have sj: "submit_job self w2 = (r, self', w')" by simp
      from submit_job_run(2-6) [OF sj] written e1 f1 g1 chk show ?thesis
        by (intro that(6) [of keys bs
              "create_model_invocation_job (bedrock_client self) (events w2) (job_request_of self)" pr])
           simp_all
    qed
  qed
qed

lemma int_repr_1024: "int_repr 1024 = ''1024''"
  by code_simp

lemma encode_literals:
  "encode_basestring_ascii ''recordId'' = quoted ''recordId''"
  "encode_basestring_ascii ''modelInput'' = quoted ''modelInput''"
  "encode_basestring_ascii ''anthropic_version'' = quoted ''anthropic_version''"
  "encode_basestring_ascii ''bedrock-2023-05-31'' = quoted ''bedrock-2023-05-31''"
  "encode_basestring_ascii ''max_tokens'' = quoted ''max_tokens''"
  "encode_basestring_ascii ''system'' = quoted ''system''"
  "encode_basestring_ascii ''messages'' = quoted ''messages''"
  "encode_basestring_ascii ''role'' = quoted ''role''"
  "encode_basestring_ascii ''user'' = quoted ''user''"
  "encode_basestring_ascii ''content'' = quoted ''content''"
  "encode_basestring_ascii ''type'' = quoted ''type''"
  "encode_basestring_ascii ''image'' = quoted ''image''"
  "encode_basestring_ascii ''source'' = quoted ''source''"
  "encode_basestring_ascii ''base64'' = quoted ''base64''"
  "encode_basestring_ascii ''media_type'' = quoted ''media_type''"
  "encode_basestring_ascii ''image/jpeg'' = quoted ''image/jpeg''"
  "encode_basestring_ascii ''data'' = quoted ''data''"
  by (simp_all add: encode_basestring_ascii_def quoted_def escape_char_def)

lemma dumps_json_obj:
  "dumps (json_obj self k b) = wire_line (basename k) (creation_prompt self) (b64encode b)"
  by (simp add: json_obj_def wire_line_def Let_def encode_literals int_repr_1024
      encode_basestring_ascii_b64encode quoted_def)

lemma hex_value_hex_digit: "n < 16 \<Longrightarrow> hex_value (hex_digit n) = Some n"
proof -
  assume n: "n < 16"
  have "distinct ''0123456789abcdef''" by simp
  moreover have "n < length ''0123456789abcdef''" using n by simp
  ultimately have "index_of (''0123456789abcdef'' ! n) ''0123456789abcdef'' = Some n"
    by (rule index_of_nth)
  then show ?thesis by (simp add: hex_value_def hex_digit_def)
qed

lemma hex_value_zero: "hex_value CHR ''0'' = Some 0"
  by (simp add: hex_value_def)

lemma hex4_of_char:
  "hex4 CHR ''0'' CHR ''0'' (hex_digit ((of_char c :: nat) div 16))
      (hex_digit ((of_char c :: nat) mod 16)) = Some (of_char c)"
proof -
  have "(of_char c :: nat) mod 16 < 16" by simp
  then show ?thesis
    by (simp add: hex4_def hex_value_zero hex_value_hex_digit of_char_div_16)
qed

lemma scanstring_u:
  "scanstring ([CHR 0x5C, CHR ''u'', CHR ''0'', CHR ''0'',
            hex_digit ((of_char c :: nat) div 16), hex_digit ((of_char c :: nat) mod 16)] @ tail)
   = map_option (\<lambda>(s, r). (c # s, r)) (scanstring tail)"
  by (simp add: hex4_of_char)

lemma scanstring_short:
  "short_escape d = Some x \<Longrightarrow> d \<noteq> CHR ''u'' \<Longrightarrow>
   scanstring ([CHR 0x5C, d] @ tail) = map_option (\<lambda>(s, r). (x # s, r)) (scanstring tail)"
  by simp

lemma scanstring_plain:
  "c \<noteq> CHR 0x22 \<Longrightarrow> c \<noteq> CHR 0x5C \<Longrightarrow> 0x20 \<le> (of_char c :: nat) \<Longrightarrow>
   scanstring ([c] @ tail) = map_option (\<lambda>(s, r). (c # s, r)) (scanstring tail)"
  by simp

lemma scanstring_escape_char:
  "scanstring (escape_char c @ tail) = map_option (\<lambda>(s, r). (c # s, r)) (scanstring tail)"
proof -
  consider (backslash) "c = CHR 0x5C" | (quote) "c = CHR 0x22" | (b) "c = CHR 0x08"
    | (f) "c = CHR 0x0C" | (n) "c = CHR 0x0A" | (r) "c = CHR 0x0D" | (t) "c = CHR 0x09"
    | (plain) "c \<noteq> CHR 0x5C" "c \<noteq> CHR 0x22" "c \<noteq> CHR 0x08" "c \<noteq> CHR 0x0C" "c \<noteq> CHR 0x0A"
        "c \<noteq> CHR 0x0D" "c \<noteq> CHR 0x09" "0x20 \<le> (of_char c :: nat) \<and> (of_char c :: nat) \<le> 0x7E"
    | (u) "c \<noteq> CHR 0x5C" "c \<noteq> CHR 0x22" "c \<noteq> CHR 0x08" "c \<noteq> CHR 0x0C" "c \<noteq> CHR 0x0A"
        "c \<noteq> CHR 0x0D" "c \<noteq> CHR 0x09"
        "\<not> (0x20 \<le> (of_char c :: nat) \<and> (of_char c :: nat) \<le> 0x7E)"
    by blast
  then show ?thesis
  proof cases
    case backslash
    have "escape_char c = [CHR 0x5C, CHR 0x5C]" by (simp add: escape_char_def backslash)
    then show ?thesis using scanstring_short [of "CHR 0x5C" c tail]
      by (simp add: short_escape_def backslash)
  next
    case quote
    have "escape_char c = [CHR 0x5C, CHR 0x22]" by (simp add: escape_char_def quote)
    then show ?thesis using scanstring_short [of "CHR 0x22" c tail]
      by (simp add: short_escape_def quote)
  next
    case b
    have "escape_char c = [CHR 0x5C, CHR ''b'']" by (simp add: escape_char_def b)
    then show ?thesis using scanstring_short [of "CHR ''b''" c tail]
      by (simp add: short_escape_def b)
  next
    case f
    have "escape_char c = [CHR 0x5C, CHR ''f'']" by (simp add: escape_char_def f)
    then show ?thesis using scanstring_short [of "CHR ''f''" c tail]
      by (simp add: short_escape_def f)
  next
    case n
    have "escape_char c = [CHR 0x5C, CHR ''n'']" by (simp add: escape_char_def n)
    then show ?thesis using scanstring_short [of "CHR ''n''" c tail]
      by (simp add: short_escape_def n)
  next
    case r
    have "escape_char c = [CHR 0x5C, CHR ''r'']" by (simp add: escape_char_def r)
    then show ?thesis using scanstring_short [of "CHR ''r''" c tail]
      by (simp add: short_escape_def r)
  next
    case t
    have "escape_char c = [CHR 0x5C, CHR ''t'']" by (simp add: escape_char_def t)
    then show ?thesis using scanstring_short [of "CHR ''t''" c tail]
      by (simp add: short_escape_def t)
  next
    case plain
    then have "escape_char c = [c]" by (simp add: escape_char_def)
    then show ?thesis using scanstring_plain [of c tail] plain by simp
  next
    case u
    then have "escape_char c = [CHR 0x5C, CHR ''u'', CHR ''0'', CHR ''0'',
            hex_digit ((of_char c :: nat) div 16), hex_digit ((of_char c :: nat) mod 16)]"
      by (simp add: escape_char_def)
    then show ?thesis using scanstring_u [of c tail] by simp
  qed
qed

lemma scanstring_quote: "scanstring (CHR 0x22 # rest) = Some ([], rest)"
  by simp

lemma scanstring_escaped:
  "scanstring (concat (map escape_char s) @ CHR 0x22 # rest) = Some (s, rest)"
  by (induction s)
     (simp_all add: scanstring_escape_char scanstring_quote del: scanstring.simps(2))

lemma line_record_id_wire_line:
  "line_record_id (wire_line recordId system data) = Some recordId"
proof -
  let ?p = "''{'' @ quoted ''recordId'' @ '': '' @ [CHR 0x22]"
  obtain rest where "wire_line recordId system data
      = ?p @ concat (map escape_char recordId) @ CHR 0x22 # rest"
    by (simp add: wire_line_def encode_basestring_ascii_def)
  then show ?thesis
    by (simp add: line_record_id_def Let_def scanstring_escaped del: scanstring.simps(2))
qed

lemma record_id_json_obj: "record_id (json_obj self k b) = Some (basename k)"
  by (simp add: record_id_def json_obj_def)

lemma data_field_json_obj: "data_field (json_obj self k b) = Some (b64encode b)"
  by (simp add: data_field_def json_obj_def)

lemma readlines_request_file:
  "readlines (request_file self keys bs) = map dumps (records_of self keys bs)"
  by (simp add: request_file_def readlines_write_records)

lemma length_records_of:
  "length bs = length keys \<Longrightarrow> length (records_of self keys bs) = length keys"
  by (simp add: records_of_def)

lemma records_of_nth:
  "length bs = length keys \<Longrightarrow> i < length keys \<Longrightarrow>
   records_of self keys bs ! i = json_obj self (keys ! i) (bs ! i)"
  by (simp add: records_of_def)

lemma map_record_id_records_of:
  "length bs = length keys \<Longrightarrow>
   map record_id (records_of self keys bs) = map (\<lambda>k. Some (basename k)) keys"
  by (rule nth_equalityI) (simp_all add: length_records_of records_of_nth record_id_json_obj)

lemma start_batch_inference_job_self:
  assumes run: "start_batch_inference_job L self w = (r, self', w')"
  shows "self' = self"
proof (cases "L (s3_client self) (events w) (bucket_name self) ''input.jsonl''")
  case (Inl e)
  from run start_check_failed [where L = L and self = self and w = w, OF Inl]
  show ?thesis by simp
next
  case (Inr found)
  show ?thesis
  proof (cases "found = []")
    case False
    from run start_exists [where L = L and self = self and w = w, OF Inr False]
    show ?thesis using submit_job_run(1) by metis
  next
    case True
    let ?w1 = "print (esc ''31'' @ ''Input jsonl file does not exist. Creating new one...''
                              @ esc ''0'')
             (w\<lparr>events := events w @ [ListObjS3 (bucket_name self) ''input.jsonl'' (Inr [])]\<rparr>)"
    obtain r1 self1 w2 where cr: "create_input_jsonl L self ?w1 = (r1, self1, w2)"
      by (cases "create_input_jsonl L self ?w1")
    have self1: "self1 = self" by (rule create_input_jsonl_self [OF cr])
    from run start_missing [where L = L and self = self and w = w, OF Inr [unfolded True]] cr self1
    have "(r, self', w') = (case r1 of Inl e \<Rightarrow> (Inl e, self, w2) | Inr u \<Rightarrow> submit_job self w2)"
      by (simp split: sum.splits)
    then show ?thesis using submit_job_run(1) [of self w2 r self' w']
      by (cases r1) simp_all
  qed
qed

lemma run_triple: "fst p = r \<Longrightarrow> p = (r, fst (snd p), snd (snd p))"
  by (cases p) auto

lemmas demo_defs = demo_self_def demo_s3_def demo_s3_no_upload_def demo_bedrock_def
  demo_bedrock_down_def demo_list_def demo_list_present_def demo_world_def init_def
  demo_self_dup_def demo_self_missing_def demo_self_empty_def demo_self_nowhere_def
  demo_self_no_upload_def demo_self_down_def demo_world_dir_def

lemmas run_defs = create_input_jsonl_def start_batch_inference_job_def submit_job_def
  upload_input_jsonl_def call_list_obj_s3_def call_get_object_def call_put_object_def
  call_create_model_invocation_job_def call_write_file_def print_def Let_def

lemma demo_listing:
  "demo_list (s3_client demo_self) (events demo_world) (bucket_name demo_self)
     (folder_name demo_self) = Inr [''images/a.jpg'', ''images/b.jpg'']"
  by (simp add: demo_defs)

lemma demo_create_ok: "fst (create_input_jsonl demo_list demo_self demo_world) = Inr ()"
  by (simp add: demo_defs run_defs)

lemma fetched_no_put: "PutObject b k f r \<notin> set (fetched self keys bs)"
  by (auto dest: fetched_elem)

lemma fetched_no_failed_get: "GetObject b k (Inl e) \<notin> set (fetched self keys bs)"
  by (auto dest: fetched_elem)

lemma fetched_no_list: "ListObjS3 b f r \<notin> set (fetched self keys bs)"
  by (auto dest: fetched_elem)

lemma fetched_no_create: "CreateModelInvocationJob q r \<notin> set (fetched self keys bs)"
  by (auto dest: fetched_elem)

section \<open>The claims\<close>

text \<open>
  Claim C9. Neither \<open>create_input_jsonl\<close> nor \<open>start_batch_inference_job\<close> changes an
  attribute set by the constructor: the object returned by either method, with its
  seven strings and its two clients, is the object it was called on, whatever the
  collaborators answer and whether the method returns or raises.
\<close>

theorem configuration_unchanged:
  "fst (snd (create_input_jsonl L self w)) = self \<and>
   fst (snd (start_batch_inference_job L self w)) = self"
proof
  show "fst (snd (create_input_jsonl L self w)) = self"
    by (rule create_input_jsonl_self [of L self w "fst (create_input_jsonl L self w)" _
          "snd (snd (create_input_jsonl L self w))"]) simp
  show "fst (snd (start_batch_inference_job L self w)) = self"
    by (rule start_batch_inference_job_self [of L self w "fst (start_batch_inference_job L self w)" _
          "snd (snd (start_batch_inference_job L self w))"]) simp
qed

theorem configuration_unchanged_witness:
  "fst (snd (create_input_jsonl demo_list demo_self demo_world)) = demo_self \<and>
   fst (snd (start_batch_inference_job demo_list demo_self demo_world)) = demo_self \<and>
   bucket_name demo_self = ''bkt''"
  using configuration_unchanged [of demo_list demo_self demo_world]
  by (simp add: demo_self_def init_def)

text \<open>
  Claim C3. When \<open>create_input_jsonl\<close> returns, the calls it made are the listing, one
  successful \<open>get_object\<close> per listed key, in order, and the upload; the \<open>i\<close>-th line of
  the file is the serialised \<open>i\<close>-th record, and decoding the base64 text in the \<open>data\<close>
  field of the \<open>i\<close>-th record gives back exactly the bytes \<open>bs ! i\<close> that the \<open>i\<close>-th
  \<open>get_object\<close> returned.
\<close>

theorem data_field_round_trip:
  assumes "L (s3_client self) (events w) (bucket_name self) (folder_name self) = Inr keys"
    and "create_input_jsonl L self w = (Inr u, self', w')"
  shows "\<exists>bs pr. length bs = length keys \<and>
    new_events w w' = ListObjS3 (bucket_name self) (folder_name self) (Inr keys)
        # fetched self keys bs
        @ [PutObject (bucket_name self) ''input.jsonl'' (request_file self keys bs) pr] \<and>
    readlines (request_file self keys bs) = map dumps (records_of self keys bs) \<and>
    length (records_of self keys bs) = length keys \<and>
    (\<forall>i < length keys.
       Option.bind (data_field (records_of self keys bs ! i)) b64decode = Some (bs ! i))"
  using assms(2)
proof (cases rule: create_input_jsonl_cases)
  case (list_failed e)
  with assms(1) show ?thesis by simp
next
  case (get_failed keys' n bs e)
  then show ?thesis by simp
next
  case (write_failed keys' bs e left)
  then show ?thesis by simp
next
  case (written keys' bs pr)
  with assms(1) have k: "keys' = keys" by simp
  note len = written(2) [unfolded k]
  have "new_events w w' = ListObjS3 (bucket_name self) (folder_name self) (Inr keys)
        # fetched self keys bs
        @ [PutObject (bucket_name self) ''input.jsonl'' (request_file self keys bs) pr]"
    using written(4) [unfolded k] by (rule new_events_append)
  moreover have "\<forall>i < length keys.
       Option.bind (data_field (records_of self keys bs ! i)) b64decode = Some (bs ! i)"
    by (simp add: records_of_nth [OF len] data_field_json_obj b64decode_b64encode)
  ultimately show ?thesis
    using len readlines_request_file length_records_of [OF len] by blast
qed


theorem data_field_round_trip_witness:
  "fst (create_input_jsonl demo_list demo_self demo_world) = Inr () \<and>
   (\<exists>bs. length bs = length [''images/a.jpg'', ''images/b.jpg''] \<and>
      (\<forall>i < length [''images/a.jpg'', ''images/b.jpg''].
         Option.bind (data_field
           (records_of demo_self [''images/a.jpg'', ''images/b.jpg''] bs ! i)) b64decode
         = Some (bs ! i)))"
proof -
  from data_field_round_trip [OF demo_listing run_triple [OF demo_create_ok]]
  obtain bs where "length bs = length [''images/a.jpg'', ''images/b.jpg'']"
    "\<forall>i < length [''images/a.jpg'', ''images/b.jpg''].
         Option.bind (data_field
           (records_of demo_self [''images/a.jpg'', ''images/b.jpg''] bs ! i)) b64decode
         = Some (bs ! i)"
    by blast
  with demo_create_ok show ?thesis by blast
qed

text \<open>
  Claim C1. Let the listing return the keys \<open>keys\<close>. \<open>create_input_jsonl\<close> returns
  normally exactly when no read and no write of the local file raises. It has then
  written the local file \<open>input.jsonl\<close>, which is also the body handed to \<open>put_object\<close>,
  with exactly one line per listed key; the \<open>i\<close>-th line is the serialisation of the
  record built from the \<open>i\<close>-th key and the bytes read for it, its text is the text of
  the interface, and the \<open>recordId\<close> read off the text of the line, like the \<open>recordId\<close>
  of the record, is the base name of the \<open>i\<close>-th key. The statement needs no assumption
  that the list is non-empty.
\<close>

theorem request_file_one_line_per_image:
  assumes "L (s3_client self) (events w) (bucket_name self) (folder_name self) = Inr keys"
    and "create_input_jsonl L self w = (r, self', w')"
  shows "(r = Inr () \<longleftrightarrow>
            (\<forall>ev \<in> set (new_events w w'). \<not> read_failed ev) \<and>
            (\<forall>op \<in> set (new_file_events w w'). \<not> write_failed op)) \<and>
    (r = Inr () \<longrightarrow>
      (\<exists>bs pr. length bs = length keys \<and>
         new_events w w' = ListObjS3 (bucket_name self) (folder_name self) (Inr keys)
           # fetched self keys bs
           @ [PutObject (bucket_name self) ''input.jsonl'' (request_file self keys bs) pr] \<and>
         new_file_events w w' =
           [WriteFile ''input.jsonl'' (request_file self keys bs) (Inr ())] \<and>
         files w' ''input.jsonl'' = Some (request_file self keys bs) \<and>
         length (readlines (request_file self keys bs)) = length keys \<and>
         (\<forall>i < length keys.
            readlines (request_file self keys bs) ! i = dumps (json_obj self (keys ! i) (bs ! i)) \<and>
            readlines (request_file self keys bs) ! i =
              wire_line (basename (keys ! i)) (creation_prompt self) (b64encode (bs ! i)) \<and>
            line_record_id (readlines (request_file self keys bs) ! i)
              = Some (basename (keys ! i)) \<and>
            record_id (json_obj self (keys ! i) (bs ! i)) = Some (basename (keys ! i)))))"
  using assms(2)
proof (cases rule: create_input_jsonl_cases)
  case (list_failed e)
  with assms(1) show ?thesis by simp
next
  case (get_failed keys' n bs e)
  from new_events_append [OF get_failed(5)]
  have "\<exists>ev \<in> set (new_events w w'). read_failed ev" by simp
  with get_failed(4) show ?thesis by auto
next
  case (write_failed keys' bs e left)
  from new_file_events_append [OF write_failed(7)]
  have "\<exists>op \<in> set (new_file_events w w'). write_failed op" by simp
  with write_failed(3) show ?thesis by auto
next
  case (written keys' bs pr)
  with assms(1) have k: "keys' = keys" by simp
  note len = written(2) [unfolded k]
  have ev: "new_events w w' = ListObjS3 (bucket_name self) (folder_name self) (Inr keys)
        # fetched self keys bs
        @ [PutObject (bucket_name self) ''input.jsonl'' (request_file self keys bs) pr]"
    using written(4) [unfolded k] by (rule new_events_append)
  have fev: "new_file_events w w' =
      [WriteFile ''input.jsonl'' (request_file self keys bs) (Inr ())]"
    using written(8) [unfolded k] by (rule new_file_events_append)
  have ok: "(\<forall>ev \<in> set (new_events w w'). \<not> read_failed ev) \<and>
            (\<forall>op \<in> set (new_file_events w w'). \<not> write_failed op)"
    unfolding ev fev by (auto dest: fetched_not_failed)
  have fl: "files w' ''input.jsonl'' = Some (request_file self keys bs)"
    using written(5) [unfolded k] by simp
  have ln: "length (readlines (request_file self keys bs)) = length keys"
    by (simp add: readlines_request_file length_records_of [OF len])
  have "\<forall>i < length keys.
          readlines (request_file self keys bs) ! i = dumps (json_obj self (keys ! i) (bs ! i)) \<and>
          readlines (request_file self keys bs) ! i =
              wire_line (basename (keys ! i)) (creation_prompt self) (b64encode (bs ! i)) \<and>
          line_record_id (readlines (request_file self keys bs) ! i)
              = Some (basename (keys ! i)) \<and>
          record_id (json_obj self (keys ! i) (bs ! i)) = Some (basename (keys ! i))"
    by (simp add: readlines_request_file length_records_of [OF len] records_of_nth [OF len]
        record_id_json_obj dumps_json_obj line_record_id_wire_line)
  with written(3) len ev fev fl ln ok show ?thesis by blast
qed

lemma demo_create_no_failure:
  "(\<forall>ev \<in> set (new_events demo_world (snd (snd (create_input_jsonl demo_list demo_self demo_world)))).
     \<not> read_failed ev) \<and>
   (\<forall>op \<in> set (new_file_events demo_world
        (snd (snd (create_input_jsonl demo_list demo_self demo_world)))). \<not> write_failed op)"
  by (simp add: demo_defs run_defs new_events_def new_file_events_def)

lemma demo_listing_dir:
  "demo_list (s3_client demo_self) (events demo_world_dir) (bucket_name demo_self)
     (folder_name demo_self) = Inr [''images/a.jpg'', ''images/b.jpg'']"
  by (simp add: demo_defs)

lemma demo_create_write_fails:
  "\<exists>op \<in> set (new_file_events demo_world_dir
        (snd (snd (create_input_jsonl demo_list demo_self demo_world_dir)))). write_failed op"
  by (simp add: demo_defs run_defs new_file_events_def)

theorem request_file_one_line_per_image_witness:
  "fst (create_input_jsonl demo_list demo_self demo_world) = Inr () \<and>
   fst (create_input_jsonl demo_list demo_self demo_world_dir) \<noteq> Inr () \<and>
   (\<exists>bs. length bs = length [''images/a.jpg'', ''images/b.jpg''] \<and>
      length (readlines (request_file demo_self [''images/a.jpg'', ''images/b.jpg''] bs))
        = length [''images/a.jpg'', ''images/b.jpg''] \<and>
      readlines (request_file demo_self [''images/a.jpg'', ''images/b.jpg''] bs) ! 1 =
        wire_line ''b.jpg'' ''Describe'' (b64encode (bs ! 1)) \<and>
      line_record_id (readlines (request_file demo_self [''images/a.jpg'', ''images/b.jpg''] bs) ! 1)
        = Some ''b.jpg'' \<and>
      record_id (json_obj demo_self ''images/b.jpg'' (bs ! 1)) = Some ''b.jpg'')"
proof -
  let ?K = "[''images/a.jpg'', ''images/b.jpg'']"
  let ?run = "create_input_jsonl demo_list demo_self demo_world"
  note T = request_file_one_line_per_image [where L = demo_list and self = demo_self
      and w = demo_world, OF demo_listing run_triple [OF refl]]
  from T demo_create_no_failure have ok: "fst ?run = Inr ()" by blast
  with T obtain bs where len: "length bs = length ?K"
    and ln: "length (readlines (request_file demo_self ?K bs)) = length ?K"
    and ids: "\<forall>i < length ?K.
        readlines (request_file demo_self ?K bs) ! i = dumps (json_obj demo_self (?K ! i) (bs ! i)) \<and>
        readlines (request_file demo_self ?K bs) ! i =
          wire_line (basename (?K ! i)) (creation_prompt demo_self) (b64encode (bs ! i)) \<and>
        line_record_id (readlines (request_file demo_self ?K bs) ! i) = Some (basename (?K ! i)) \<and>
        record_id (json_obj demo_self (?K ! i) (bs ! i)) = Some (basename (?K ! i))"
    by blast
  have "1 < length ?K" by simp
  with ids have "readlines (request_file demo_self ?K bs) ! 1 =
          wire_line (basename (?K ! 1)) (creation_prompt demo_self) (b64encode (bs ! 1)) \<and>
      line_record_id (readlines (request_file demo_self ?K bs) ! 1) = Some (basename (?K ! 1)) \<and>
      record_id (json_obj demo_self (?K ! 1) (bs ! 1)) = Some (basename (?K ! 1))"
    by blast
  moreover have "basename (?K ! 1) = ''b.jpg''" by (simp add: basename_def)
  moreover have "creation_prompt demo_self = ''Describe''" by (simp add: demo_self_def init_def)
  moreover have "?K ! 1 = ''images/b.jpg''" by simp
  ultimately have "readlines (request_file demo_self ?K bs) ! 1 =
        wire_line ''b.jpg'' ''Describe'' (b64encode (bs ! 1)) \<and>
      line_record_id (readlines (request_file demo_self ?K bs) ! 1) = Some ''b.jpg'' \<and>
      record_id (json_obj demo_self ''images/b.jpg'' (bs ! 1)) = Some ''b.jpg''"
    by metis
  moreover
  from request_file_one_line_per_image [where L = demo_list and self = demo_self
      and w = demo_world_dir, OF demo_listing_dir run_triple [OF refl]] demo_create_write_fails
  have "fst (create_input_jsonl demo_list demo_self demo_world_dir) \<noteq> Inr ()" by blast
  ultimately show ?thesis using len ln ok by blast
qed

text \<open>
  Claim C2. Every line of the file that \<open>create_input_jsonl\<close> has written is the
  serialisation of a dictionary with the two keys \<open>recordId\<close> (a string) and
  \<open>modelInput\<close>; \<open>modelInput\<close> holds \<open>anthropic_version\<close> \<open>bedrock-2023-05-31\<close>,
  \<open>max_tokens\<close> 1024, \<open>system\<close> equal to the configured prompt, and \<open>messages\<close>, a list
  of one user message whose content is a list of one image entry with a base64 source
  of media type \<open>image/jpeg\<close>. The text of the line is the text the interface fixes,
  and the \<open>data\<close> string is a base64 text: it uses the base64 alphabet and \<open>=\<close> only,
  and it decodes.
\<close>

theorem record_wire_shape:
  assumes "create_input_jsonl L self w = (Inr u, self', w')"
    and "files w' ''input.jsonl'' = Some f"
    and "line \<in> set (readlines f)"
  shows "\<exists>key image_binary.
    line = dumps
      (JDict [(''recordId'', JStr (basename key)),
              (''modelInput'',
                 JDict [(''anthropic_version'', JStr ''bedrock-2023-05-31''),
                        (''max_tokens'', JInt 1024),
                        (''system'', JStr (creation_prompt self)),
                        (''messages'',
                           JList [JDict [(''role'', JStr ''user''),
                                         (''content'',
                                            JList [JDict [(''type'', JStr ''image''),
                                                          (''source'',
                                                             JDict [(''type'', JStr ''base64''),
                                                                    (''media_type'', JStr ''image/jpeg''),
                                                                    (''data'', JStr (b64encode image_binary))])]])]])])]) \<and>
    line = wire_line (basename key) (creation_prompt self) (b64encode image_binary) \<and>
    set (b64encode image_binary) \<subseteq> set (table_b2a_base64 @ ''='') \<and>
    b64decode (b64encode image_binary) = Some image_binary"
  using assms(1)
proof (cases rule: create_input_jsonl_cases)
  case (list_failed e)
  then show ?thesis by simp
next
  case (get_failed keys n bs e)
  then show ?thesis by simp
next
  case (write_failed keys bs e left)
  then show ?thesis by simp
next
  case (written keys bs pr)
  from written(5) assms(2) have f: "f = request_file self keys bs" by simp
  with assms(3) have "line \<in> set (map dumps (records_of self keys bs))"
    by (simp add: readlines_request_file)
  then obtain i where i: "i < length keys" "line = dumps (records_of self keys bs ! i)"
    using length_records_of [OF written(2), of self] by (auto simp: in_set_conv_nth)
  then have l: "line = dumps (json_obj self (keys ! i) (bs ! i))"
    by (simp add: records_of_nth [OF written(2)])
  have "line = dumps
      (JDict [(''recordId'', JStr (basename (keys ! i))),
              (''modelInput'',
                 JDict [(''anthropic_version'', JStr ''bedrock-2023-05-31''),
                        (''max_tokens'', JInt 1024),
                        (''system'', JStr (creation_prompt self)),
                        (''messages'',
                           JList [JDict [(''role'', JStr ''user''),
                                         (''content'',
                                            JList [JDict [(''type'', JStr ''image''),
                                                          (''source'',
                                                             JDict [(''type'', JStr ''base64''),
                                                                    (''media_type'', JStr ''image/jpeg''),
                                                                    (''data'', JStr (b64encode (bs ! i)))])]])]])])])"
    unfolding l by (simp only: json_obj_def Let_def)
  moreover have "line = wire_line (basename (keys ! i)) (creation_prompt self) (b64encode (bs ! i))"
    unfolding l by (rule dumps_json_obj)
  moreover note b64encode_alphabet [of "bs ! i"] b64decode_b64encode [of "bs ! i"]
  ultimately show ?thesis by blast
qed


lemma demo_file:
  "files (snd (snd (create_input_jsonl demo_list demo_self demo_world))) ''input.jsonl'' =
     Some (request_file demo_self [''images/a.jpg'', ''images/b.jpg''] [[0x4D, 0x61], [0xFF]])"
  by (simp add: demo_defs run_defs request_file_def records_of_def)

lemma demo_line:
  "dumps (json_obj demo_self ''images/a.jpg'' [0x4D, 0x61]) \<in>
     set (readlines (request_file demo_self [''images/a.jpg'', ''images/b.jpg''] [[0x4D, 0x61], [0xFF]]))"
  by (simp add: readlines_request_file records_of_def)

theorem record_wire_shape_witness:
  "fst (create_input_jsonl demo_list demo_self demo_world) = Inr () \<and>
   dumps (json_obj demo_self ''images/a.jpg'' [0x4D, 0x61]) \<in>
     set (readlines (request_file demo_self [''images/a.jpg'', ''images/b.jpg''] [[0x4D, 0x61], [0xFF]])) \<and>
   (\<exists>key image_binary.
      dumps (json_obj demo_self ''images/a.jpg'' [0x4D, 0x61]) =
        wire_line (basename key) (creation_prompt demo_self) (b64encode image_binary))"
proof -
  from record_wire_shape [OF run_triple [OF demo_create_ok] demo_file demo_line]
  obtain key image_binary where
    "dumps (json_obj demo_self ''images/a.jpg'' [0x4D, 0x61]) =
        wire_line (basename key) (creation_prompt demo_self) (b64encode image_binary)"
    by blast
  with demo_create_ok demo_line show ?thesis by blast
qed

text \<open>
  Claim C8. When \<open>create_input_jsonl\<close> returns, the record identifiers are the base
  names of the listed keys, in order: they are pairwise distinct when the base names
  are, and two keys with the same base name give two records, both written, with the
  same identifier; there are as many records and lines as listed keys.
\<close>

theorem record_ids_distinct:
  assumes "L (s3_client self) (events w) (bucket_name self) (folder_name self) = Inr keys"
    and "create_input_jsonl L self w = (Inr u, self', w')"
  shows "\<exists>bs. length bs = length keys \<and>
    files w' ''input.jsonl'' = Some (request_file self keys bs) \<and>
    readlines (request_file self keys bs) = map dumps (records_of self keys bs) \<and>
    length (records_of self keys bs) = length keys \<and>
    map record_id (records_of self keys bs) = map (\<lambda>k. Some (basename k)) keys \<and>
    (distinct (map basename keys) \<longrightarrow> distinct (map record_id (records_of self keys bs))) \<and>
    (\<forall>i < length keys. \<forall>j < length keys. basename (keys ! i) = basename (keys ! j) \<longrightarrow>
       record_id (records_of self keys bs ! i) = record_id (records_of self keys bs ! j))"
  using assms(2)
proof (cases rule: create_input_jsonl_cases)
  case (list_failed e)
  with assms(1) show ?thesis by simp
next
  case (get_failed keys' n bs e)
  then show ?thesis by simp
next
  case (write_failed keys' bs e left)
  then show ?thesis by simp
next
  case (written keys' bs pr)
  with assms(1) have k: "keys' = keys" by simp
  note len = written(2) [unfolded k]
  have fl: "files w' ''input.jsonl'' = Some (request_file self keys bs)"
    using written(5) [unfolded k] by simp
  have ids: "map record_id (records_of self keys bs) = map (\<lambda>k. Some (basename k)) keys"
    by (rule map_record_id_records_of [OF len])
  have "map (\<lambda>k. Some (basename k)) keys = map Some (map basename keys)" by simp
  then have d: "distinct (map basename keys) \<longrightarrow> distinct (map record_id (records_of self keys bs))"
    unfolding ids by (simp add: distinct_map del: map_map)
  have c: "\<forall>i < length keys. \<forall>j < length keys. basename (keys ! i) = basename (keys ! j) \<longrightarrow>
       record_id (records_of self keys bs ! i) = record_id (records_of self keys bs ! j)"
    by (simp add: records_of_nth [OF len] record_id_json_obj)
  from len fl readlines_request_file [of self keys bs] length_records_of [OF len, of self] ids d c
  show ?thesis by blast
qed

lemma demo_dup_listing:
  "demo_list (s3_client demo_self_dup) (events demo_world) (bucket_name demo_self_dup)
     (folder_name demo_self_dup) = Inr [''images/a.jpg'', ''old/a.jpg'']"
  by (simp add: demo_defs)

lemma demo_dup_create_ok: "fst (create_input_jsonl demo_list demo_self_dup demo_world) = Inr ()"
  by (simp add: demo_defs run_defs)

theorem record_ids_distinct_witness:
  "(\<exists>bs. length bs = length [''images/a.jpg'', ''images/b.jpg''] \<and>
      distinct (map record_id (records_of demo_self [''images/a.jpg'', ''images/b.jpg''] bs))) \<and>
   (\<exists>bs. length (records_of demo_self_dup [''images/a.jpg'', ''old/a.jpg''] bs) = 2 \<and>
      record_id (records_of demo_self_dup [''images/a.jpg'', ''old/a.jpg''] bs ! 0) =
      record_id (records_of demo_self_dup [''images/a.jpg'', ''old/a.jpg''] bs ! 1))"
proof
  let ?K = "[''images/a.jpg'', ''images/b.jpg'']"
  from record_ids_distinct [OF demo_listing run_triple [OF demo_create_ok]]
  obtain bs where len: "length bs = length ?K"
    and d: "distinct (map basename ?K) \<longrightarrow> distinct (map record_id (records_of demo_self ?K bs))"
    by blast
  have "distinct (map basename ?K)" by (simp add: basename_def)
  with d len show "\<exists>bs. length bs = length ?K \<and>
      distinct (map record_id (records_of demo_self ?K bs))"
    by blast
next
  let ?K = "[''images/a.jpg'', ''old/a.jpg'']"
  from record_ids_distinct [OF demo_dup_listing run_triple [OF demo_dup_create_ok]]
  obtain bs where len: "length (records_of demo_self_dup ?K bs) = length ?K"
    and c: "\<forall>i < length ?K. \<forall>j < length ?K. basename (?K ! i) = basename (?K ! j) \<longrightarrow>
       record_id (records_of demo_self_dup ?K bs ! i) = record_id (records_of demo_self_dup ?K bs ! j)"
    by blast
  have "0 < length ?K" "1 < length ?K" "basename (?K ! 0) = basename (?K ! 1)"
    by (simp_all add: basename_def)
  with c have "record_id (records_of demo_self_dup ?K bs ! 0) =
      record_id (records_of demo_self_dup ?K bs ! 1)"
    by blast
  moreover from len have "length (records_of demo_self_dup ?K bs) = 2" by simp
  ultimately show "\<exists>bs. length (records_of demo_self_dup ?K bs) = 2 \<and>
      record_id (records_of demo_self_dup ?K bs ! 0) =
      record_id (records_of demo_self_dup ?K bs ! 1)"
    by blast
qed

text \<open>
  Claim C4. Let the existence check (the listing with \<open>input.jsonl\<close> as the folder)
  return the list \<open>found\<close>. The call that follows the check is the listing of the source
  folder, the first call of \<open>create_input_jsonl\<close>, exactly when \<open>found\<close> is empty; in
  that case the method continues as \<open>create_input_jsonl\<close> followed by the job creation.
  When \<open>found\<close> is not empty the only calls are the check and the job creation: the
  source folder is neither listed nor read, nothing is uploaded and no file is written.
\<close>

theorem create_called_iff_request_file_missing:
  assumes "L (s3_client self) (events w) (bucket_name self) ''input.jsonl'' = Inr found"
    and "start_batch_inference_job L self w = (r, self', w')"
  shows "(found = [] \<longleftrightarrow>
           (\<exists>r2 rest. new_events w w' =
              ListObjS3 (bucket_name self) ''input.jsonl'' (Inr found)
              # ListObjS3 (bucket_name self) (folder_name self) r2 # rest)) \<and>
         (found = [] \<longrightarrow>
            start_batch_inference_job L self w =
              (case create_input_jsonl L self
                      (print (esc ''31'' @ ''Input jsonl file does not exist. Creating new one...''
                              @ esc ''0'')
                         (w\<lparr>events := events w
                              @ [ListObjS3 (bucket_name self) ''input.jsonl'' (Inr [])]\<rparr>)) of
                 (Inl e, self1, w2) \<Rightarrow> (Inl e, self1, w2)
               | (Inr u, self1, w2) \<Rightarrow> submit_job self1 w2)) \<and>
         (found \<noteq> [] \<longrightarrow>
            (\<exists>resp. new_events w w' =
               [ListObjS3 (bucket_name self) ''input.jsonl'' (Inr found),
                CreateModelInvocationJob (job_request_of self) resp] \<and>
              r = jobArn_of resp) \<and>
            files w' = files w \<and>
            start_batch_inference_job L self w =
              submit_job self
                (print (esc ''32'' @ ''Input jsonl file already exists. No need to create a new one.''
                        @ esc ''0'')
                   (w\<lparr>events := events w
                        @ [ListObjS3 (bucket_name self) ''input.jsonl'' (Inr found)]\<rparr>)))"
proof (cases "found = []")
  case True
  note chk = assms(1) [unfolded True]
  have "\<exists>r2 rest. new_events w w' =
              ListObjS3 (bucket_name self) ''input.jsonl'' (Inr [])
              # ListObjS3 (bucket_name self) (folder_name self) r2 # rest"
    using assms(2)
  proof (cases rule: start_batch_inference_job_cases)
    case (check_failed e)
    with chk show ?thesis by simp
  next
    case (exists found' resp)
    with chk show ?thesis by simp
  next
    case (list_failed e)
    from new_events_append [OF list_failed(4)] show ?thesis by blast
  next
    case (get_failed keys n bs e)
    from new_events_append [OF get_failed(6)] show ?thesis by blast
  next
    case (write_failed keys bs e left)
    from new_events_append [OF write_failed(5)] show ?thesis by blast
  next
    case (created keys bs pr resp)
    from new_events_append [OF created(5)] show ?thesis by blast
  qed
  with True start_missing [where L = L and self = self and w = w, OF chk] show ?thesis
    by simp
next
  case False
  have "(\<exists>resp. new_events w w' =
               [ListObjS3 (bucket_name self) ''input.jsonl'' (Inr found),
                CreateModelInvocationJob (job_request_of self) resp] \<and>
              r = jobArn_of resp) \<and> files w' = files w"
    using assms(2)
  proof (cases rule: start_batch_inference_job_cases)
    case (check_failed e)
    with assms(1) show ?thesis by simp
  next
    case (exists found' resp)
    with assms(1) have "found' = found" by simp
    with new_events_append [OF exists(4)] exists(3,5) show ?thesis by blast
  next
    case (list_failed e)
    with assms(1) False show ?thesis by simp
  next
    case (get_failed keys n bs e)
    with assms(1) False show ?thesis by simp
  next
    case (write_failed keys bs e left)
    with assms(1) False show ?thesis by simp
  next
    case (created keys bs pr resp)
    with assms(1) False show ?thesis by simp
  qed
  moreover from this have "\<not> (\<exists>r2 rest. new_events w w' =
              ListObjS3 (bucket_name self) ''input.jsonl'' (Inr found)
              # ListObjS3 (bucket_name self) (folder_name self) r2 # rest)"
    by auto
  ultimately show ?thesis
    using False start_exists [where L = L and self = self and w = w, OF assms(1) False]
    by simp
qed

lemma filter_create_fetched_append:
  "filter is_create_job (fetched self keys bs @ xs) = filter is_create_job xs"
  by (simp add: fetched_no_job)

lemma demo_check_missing:
  "demo_list (s3_client demo_self) (events demo_world) (bucket_name demo_self) ''input.jsonl''
     = Inr []"
  by (simp add: demo_defs)

lemma demo_check_present:
  "demo_list_present (s3_client demo_self) (events demo_world) (bucket_name demo_self)
     ''input.jsonl'' = Inr [''input.jsonl'']"
  by (simp add: demo_defs)

theorem create_called_iff_request_file_missing_witness:
  "(\<exists>r2 rest. new_events demo_world
        (snd (snd (start_batch_inference_job demo_list demo_self demo_world))) =
      ListObjS3 (bucket_name demo_self) ''input.jsonl'' (Inr [])
      # ListObjS3 (bucket_name demo_self) (folder_name demo_self) r2 # rest) \<and>
   (\<exists>resp. new_events demo_world
        (snd (snd (start_batch_inference_job demo_list_present demo_self demo_world))) =
      [ListObjS3 (bucket_name demo_self) ''input.jsonl'' (Inr [''input.jsonl'']),
       CreateModelInvocationJob (job_request_of demo_self) resp]) \<and>
   files (snd (snd (start_batch_inference_job demo_list_present demo_self demo_world)))
     = files demo_world"
proof -
  from create_called_iff_request_file_missing [where L = demo_list and self = demo_self and w = demo_world,
      OF demo_check_missing run_triple [OF refl]]
  have 1: "\<exists>r2 rest. new_events demo_world
        (snd (snd (start_batch_inference_job demo_list demo_self demo_world))) =
      ListObjS3 (bucket_name demo_self) ''input.jsonl'' (Inr [])
      # ListObjS3 (bucket_name demo_self) (folder_name demo_self) r2 # rest"
    by blast
  have ne: "[''input.jsonl''] \<noteq> []" by simp
  from create_called_iff_request_file_missing [where L = demo_list_present and self = demo_self
      and w = demo_world, OF demo_check_present run_triple [OF refl]] ne
  have 2: "(\<exists>resp. new_events demo_world
        (snd (snd (start_batch_inference_job demo_list_present demo_self demo_world))) =
      [ListObjS3 (bucket_name demo_self) ''input.jsonl'' (Inr [''input.jsonl'']),
       CreateModelInvocationJob (job_request_of demo_self) resp]) \<and>
   files (snd (snd (start_batch_inference_job demo_list_present demo_self demo_world)))
     = files demo_world"
    by blast
  from 1 2 show ?thesis by blast
qed

text \<open>
  Claim C5. In a run of \<open>start_batch_inference_job\<close> in which no listing, no read and no
  write of the local file raises, \<open>create_model_invocation_job\<close> is called exactly once,
  as the last call; the method returns the \<open>jobArn\<close> of the response (it raises what the
  service raised, or \<open>KeyError\<close> when the response has no \<open>jobArn\<close>). In every other
  run the method raises and the job creation is not called. The call is made with the
  job name, the model identifier and the role of the configuration, the input
  \<open>s3://{bucket_name}/input.jsonl\<close> in format \<open>JSONL\<close> and the output
  \<open>s3://{bucket_name}/{output_folder}\<close>.
\<close>

theorem job_created_once:
  assumes "start_batch_inference_job L self w = (r, self', w')"
  shows "((\<forall>ev \<in> set (new_events w w'). \<not> read_failed ev) \<and>
          (\<forall>op \<in> set (new_file_events w w'). \<not> write_failed op)
          \<longrightarrow> (\<exists>resp.
                 filter is_create_job (new_events w w')
                   = [CreateModelInvocationJob (job_request_of self) resp] \<and>
                 last (events w') = CreateModelInvocationJob (job_request_of self) resp \<and>
                 r = jobArn_of resp \<and>
                 (\<forall>response jobArn.
                    resp = Inr response \<and> map_of response ''jobArn'' = Some jobArn
                    \<longrightarrow> r = Inr jobArn))) \<and>
    (\<not> ((\<forall>ev \<in> set (new_events w w'). \<not> read_failed ev) \<and>
         (\<forall>op \<in> set (new_file_events w w'). \<not> write_failed op))
          \<longrightarrow> filter is_create_job (new_events w w') = [] \<and> (\<exists>e. r = Inl e)) \<and>
    jobName (job_request_of self) = job_name self \<and>
    modelId (job_request_of self) = model_id self \<and>
    roleArn (job_request_of self) = role_arn self \<and>
    inputDataConfig (job_request_of self) =
      JDict [(''s3InputDataConfig'',
                JDict [(''s3InputFormat'', JStr ''JSONL''),
                       (''s3Uri'', JStr (''s3://'' @ bucket_name self @ ''/input.jsonl''))])] \<and>
    outputDataConfig (job_request_of self) =
      JDict [(''s3OutputDataConfig'',
                JDict [(''s3Uri'', JStr (''s3://'' @ bucket_name self @ ''/''
                                         @ output_folder self))])]"
proof -
  let ?ok = "(\<forall>ev \<in> set (new_events w w'). \<not> read_failed ev) \<and>
          (\<forall>op \<in> set (new_file_events w w'). \<not> write_failed op)"
  have req: "jobName (job_request_of self) = job_name self"
    "modelId (job_request_of self) = model_id self"
    "roleArn (job_request_of self) = role_arn self"
    "inputDataConfig (job_request_of self) =
      JDict [(''s3InputDataConfig'',
                JDict [(''s3InputFormat'', JStr ''JSONL''),
                       (''s3Uri'', JStr (''s3://'' @ bucket_name self @ ''/input.jsonl''))])]"
    "outputDataConfig (job_request_of self) =
      JDict [(''s3OutputDataConfig'',
                JDict [(''s3Uri'', JStr (''s3://'' @ bucket_name self @ ''/''
                                         @ output_folder self))])]"
    by (simp_all add: job_request_of_def Let_def)
  have arn: "\<And>resp. r = jobArn_of resp \<Longrightarrow>
     \<forall>response jobArn. resp = Inr response \<and> map_of response ''jobArn'' = Some jobArn
        \<longrightarrow> r = Inr jobArn"
    by (simp add: jobArn_of_def)
  have "(?ok \<and> (\<exists>resp.
    filter is_create_job (new_events w w') = [CreateModelInvocationJob (job_request_of self) resp] \<and>
    last (events w') = CreateModelInvocationJob (job_request_of self) resp \<and>
    r = jobArn_of resp)) \<or>
    (\<not> ?ok \<and> filter is_create_job (new_events w w') = [] \<and> (\<exists>e. r = Inl e))"
    using assms(1)
  proof (cases rule: start_batch_inference_job_cases)
    case (check_failed e)
    from new_events_append [OF check_failed(3)] check_failed(2) show ?thesis by simp
  next
    case (exists found resp)
    from new_events_append [OF exists(4)] new_file_events_append [of w' w "[]"] exists(3,4,6)
    show ?thesis by simp
  next
    case (list_failed e)
    from new_events_append [OF list_failed(4)] list_failed(3) show ?thesis by simp
  next
    case (get_failed keys n bs e)
    from new_events_append [OF get_failed(6)] get_failed(5) show ?thesis
      by (simp add: fetched_no_job)
  next
    case (write_failed keys bs e left)
    from new_events_append [OF write_failed(5)] new_file_events_append [OF write_failed(7)]
      write_failed(4)
    show ?thesis by (simp add: fetched_no_job)
  next
    case (created keys bs pr resp)
    have "\<forall>ev \<in> set (fetched self keys bs). \<not> read_failed ev"
      by (auto dest: fetched_not_failed)
    with new_events_append [OF created(5)] new_file_events_append [OF created(7)] created(4,5)
    show ?thesis by (simp add: fetched_no_job)
  qed
  with arn req show ?thesis by blast
qed

lemma demo_start_no_failure:
  "(\<forall>ev \<in> set (new_events demo_world
       (snd (snd (start_batch_inference_job demo_list demo_self demo_world)))). \<not> read_failed ev) \<and>
   (\<forall>op \<in> set (new_file_events demo_world
       (snd (snd (start_batch_inference_job demo_list demo_self demo_world)))). \<not> write_failed op)"
  by (simp add: demo_defs run_defs new_events_def new_file_events_def)

lemma demo_start_write_fails:
  "\<not> ((\<forall>ev \<in> set (new_events demo_world_dir
       (snd (snd (start_batch_inference_job demo_list demo_self demo_world_dir)))). \<not> read_failed ev) \<and>
   (\<forall>op \<in> set (new_file_events demo_world_dir
       (snd (snd (start_batch_inference_job demo_list demo_self demo_world_dir)))).
          \<not> write_failed op))"
  by (simp add: demo_defs run_defs new_events_def new_file_events_def)

theorem job_created_once_witness:
  "fst (start_batch_inference_job demo_list demo_self demo_world) = Inr ''arn:job/1'' \<and>
   length (filter is_create_job (new_events demo_world
       (snd (snd (start_batch_inference_job demo_list demo_self demo_world))))) = 1 \<and>
   filter is_create_job (new_events demo_world_dir
       (snd (snd (start_batch_inference_job demo_list demo_self demo_world_dir)))) = [] \<and>
   (\<exists>e. fst (start_batch_inference_job demo_list demo_self demo_world_dir) = Inl e)"
proof -
  let ?run = "start_batch_inference_job demo_list demo_self demo_world"
  let ?bad = "start_batch_inference_job demo_list demo_self demo_world_dir"
  from job_created_once [where L = demo_list and self = demo_self and w = demo_world,
      OF run_triple [OF refl]] demo_start_no_failure
  obtain resp where
    f: "filter is_create_job (new_events demo_world (snd (snd ?run)))
        = [CreateModelInvocationJob (job_request_of demo_self) resp]"
    and l: "last (events (snd (snd ?run))) = CreateModelInvocationJob (job_request_of demo_self) resp"
    and a: "\<forall>response jobArn. resp = Inr response \<and> map_of response ''jobArn'' = Some jobArn
        \<longrightarrow> fst ?run = Inr jobArn"
    by blast
  have "last (events (snd (snd ?run))) =
      CreateModelInvocationJob (job_request_of demo_self) (Inr [(''jobArn'', ''arn:job/1'')])"
    by (simp add: demo_defs run_defs)
  with l have "resp = Inr [(''jobArn'', ''arn:job/1'')]" by simp
  moreover have "map_of [(''jobArn'', ''arn:job/1'')] ''jobArn'' = Some ''arn:job/1''" by simp
  ultimately have 1: "fst ?run = Inr ''arn:job/1''" using a by blast
  from job_created_once [where L = demo_list and self = demo_self and w = demo_world_dir,
      OF run_triple [OF refl]] demo_start_write_fails
  have 2: "filter is_create_job (new_events demo_world_dir (snd (snd ?bad))) = [] \<and>
      (\<exists>e. fst ?bad = Inl e)"
    by blast
  from 1 2 f show ?thesis by simp
qed

text \<open>
  Claim C7. An exception raised by the listing of the source folder or by the read of
  an image leaves \<open>create_input_jsonl\<close> as it is: the method raises that exception,
  writes no file, uploads nothing; \<open>start_batch_inference_job\<close> raises it in turn and
  creates no job. An exception raised by \<open>create_model_invocation_job\<close> is raised by
  \<open>start_batch_inference_job\<close> unchanged.
\<close>

theorem store_and_service_errors_propagate:
  "(create_input_jsonl L self w = (r, self', w') \<and>
      (ListObjS3 bucket folder (Inl e) \<in> set (new_events w w') \<or>
       GetObject bucket key (Inl e) \<in> set (new_events w w'))
    \<longrightarrow> r = Inl e \<and> files w' = files w \<and> filter is_create_job (new_events w w') = [] \<and>
        (\<forall>b k f pr. PutObject b k f pr \<notin> set (new_events w w'))) \<and>
   (start_batch_inference_job L self w = (r_start, self_start, w_start) \<and>
      (ListObjS3 bucket folder (Inl e) \<in> set (new_events w w_start) \<or>
       GetObject bucket key (Inl e) \<in> set (new_events w w_start))
    \<longrightarrow> r_start = Inl e \<and> files w_start = files w \<and> filter is_create_job (new_events w w_start) = []) \<and>
   (start_batch_inference_job L self w = (r_start, self_start, w_start) \<and>
      CreateModelInvocationJob req (Inl e) \<in> set (new_events w w_start)
    \<longrightarrow> r_start = Inl e)"
proof (intro conjI impI)
  assume a: "create_input_jsonl L self w = (r, self', w') \<and>
      (ListObjS3 bucket folder (Inl e) \<in> set (new_events w w') \<or>
       GetObject bucket key (Inl e) \<in> set (new_events w w'))"
  then have run: "create_input_jsonl L self w = (r, self', w')" by simp
  from run have "r = Inl e \<and> files w' = files w \<and> filter is_create_job (new_events w w') = [] \<and>
        (\<forall>b k f pr. PutObject b k f pr \<notin> set (new_events w w'))"
  proof (cases rule: create_input_jsonl_cases)
    case (list_failed e')
    from a new_events_append [OF list_failed(3)] list_failed(2,4) show ?thesis by auto
  next
    case (get_failed keys n bs e')
    from a new_events_append [OF get_failed(5)] get_failed(4,6) show ?thesis
      by (auto simp: fetched_no_job fetched_no_put fetched_no_failed_get fetched_no_list)
  next
    case (write_failed keys bs e' left)
    from a new_events_append [OF write_failed(4)] show ?thesis
      by (auto simp: fetched_no_failed_get fetched_no_list)
  next
    case (written keys bs pr)
    from a new_events_append [OF written(4)] show ?thesis
      by (auto simp: fetched_no_failed_get fetched_no_list)
  qed
  then show "r = Inl e" "files w' = files w" "filter is_create_job (new_events w w') = []"
    "\<forall>b k f pr. PutObject b k f pr \<notin> set (new_events w w')"
    by blast+
next
  assume a: "start_batch_inference_job L self w = (r_start, self_start, w_start) \<and>
      (ListObjS3 bucket folder (Inl e) \<in> set (new_events w w_start) \<or>
       GetObject bucket key (Inl e) \<in> set (new_events w w_start))"
  then have run: "start_batch_inference_job L self w = (r_start, self_start, w_start)" by simp
  from run have "r_start = Inl e \<and> files w_start = files w \<and> filter is_create_job (new_events w w_start) = []"
  proof (cases rule: start_batch_inference_job_cases)
    case (check_failed e')
    from a new_events_append [OF check_failed(3)] check_failed(2,4) show ?thesis by auto
  next
    case (exists found resp)
    from a new_events_append [OF exists(4)] show ?thesis by auto
  next
    case (list_failed e')
    from a new_events_append [OF list_failed(4)] list_failed(3,5) show ?thesis by auto
  next
    case (get_failed keys n bs e')
    from a new_events_append [OF get_failed(6)] get_failed(5,7) show ?thesis
      by (auto simp: fetched_no_job fetched_no_failed_get fetched_no_list)
  next
    case (write_failed keys bs e' left)
    from a new_events_append [OF write_failed(5)] show ?thesis
      by (auto simp: fetched_no_failed_get fetched_no_list)
  next
    case (created keys bs pr resp)
    from a new_events_append [OF created(5)] show ?thesis
      by (auto simp: fetched_no_failed_get fetched_no_list)
  qed
  then show "r_start = Inl e" "files w_start = files w" "filter is_create_job (new_events w w_start) = []"
    by blast+
next
  assume a: "start_batch_inference_job L self w = (r_start, self_start, w_start) \<and>
      CreateModelInvocationJob req (Inl e) \<in> set (new_events w w_start)"
  then have run: "start_batch_inference_job L self w = (r_start, self_start, w_start)" by simp
  from run show "r_start = Inl e"
  proof (cases rule: start_batch_inference_job_cases)
    case (check_failed e')
    from a new_events_append [OF check_failed(3)] show ?thesis by auto
  next
    case (exists found resp)
    from a new_events_append [OF exists(4)] exists(3) show ?thesis
      by (auto simp: jobArn_of_def)
  next
    case (list_failed e')
    from a new_events_append [OF list_failed(4)] show ?thesis by auto
  next
    case (get_failed keys n bs e')
    from a new_events_append [OF get_failed(6)] show ?thesis
      by (auto simp: fetched_no_create)
  next
    case (write_failed keys bs e' left)
    from a new_events_append [OF write_failed(5)] show ?thesis
      by (auto simp: fetched_no_create)
  next
    case (created keys bs pr resp)
    from a new_events_append [OF created(5)] created(4) show ?thesis
      by (auto simp: fetched_no_create jobArn_of_def)
  qed
qed

lemma demo_missing_read_raises:
  "GetObject ''bkt'' ''gone.jpg'' (Inl (Exception ''NoSuchKey'')) \<in>
     set (new_events demo_world
            (snd (snd (create_input_jsonl demo_list demo_self_missing demo_world))))"
  by (simp add: demo_defs run_defs new_events_def)

lemma demo_nowhere_listing_raises:
  "ListObjS3 ''bkt'' ''nowhere/'' (Inl (Exception ''NoSuchBucket'')) \<in>
     set (new_events demo_world
            (snd (snd (start_batch_inference_job demo_list demo_self_nowhere demo_world))))"
  by (simp add: demo_defs run_defs new_events_def)

lemma demo_down_create_raises:
  "CreateModelInvocationJob (job_request_of demo_self_down) (Inl (Exception ''Throttled'')) \<in>
     set (new_events demo_world
            (snd (snd (start_batch_inference_job demo_list demo_self_down demo_world))))"
  by (simp add: demo_defs run_defs new_events_def)

theorem store_and_service_errors_propagate_witness:
  "fst (create_input_jsonl demo_list demo_self_missing demo_world) = Inl (Exception ''NoSuchKey'') \<and>
   files (snd (snd (create_input_jsonl demo_list demo_self_missing demo_world))) = files demo_world \<and>
   fst (start_batch_inference_job demo_list demo_self_nowhere demo_world)
     = Inl (Exception ''NoSuchBucket'') \<and>
   fst (start_batch_inference_job demo_list demo_self_down demo_world)
     = Inl (Exception ''Throttled'')"
proof -
  let ?c = "create_input_jsonl demo_list demo_self_missing demo_world"
  let ?s = "start_batch_inference_job demo_list demo_self_nowhere demo_world"
  let ?d = "start_batch_inference_job demo_list demo_self_down demo_world"
  from store_and_service_errors_propagate [where L = demo_list and self = demo_self_missing
      and w = demo_world and r = "fst ?c" and self' = "fst (snd ?c)" and w' = "snd (snd ?c)"
      and bucket = "''bkt''" and key = "''gone.jpg''" and e = "Exception ''NoSuchKey''"]
    demo_missing_read_raises
  have 1: "fst ?c = Inl (Exception ''NoSuchKey'') \<and> files (snd (snd ?c)) = files demo_world"
    by simp
  from store_and_service_errors_propagate [where L = demo_list and self = demo_self_nowhere
      and w = demo_world and r_start = "fst ?s" and self_start = "fst (snd ?s)"
      and w_start = "snd (snd ?s)"
      and bucket = "''bkt''" and folder = "''nowhere/''" and e = "Exception ''NoSuchBucket''"]
    demo_nowhere_listing_raises
  have 2: "fst ?s = Inl (Exception ''NoSuchBucket'')"
    by simp
  from store_and_service_errors_propagate [where L = demo_list and self = demo_self_down
      and w = demo_world and r_start = "fst ?d" and self_start = "fst (snd ?d)"
      and w_start = "snd (snd ?d)"
      and req = "job_request_of demo_self_down" and e = "Exception ''Throttled''"]
    demo_down_create_raises
  have 3: "fst ?d = Inl (Exception ''Throttled'')"
    by simp
  from 1 2 3 show ?thesis by simp
qed






text \<open>
  Claim C10. When the listing of the source folder returns the empty list and the
  local file can be written, \<open>create_input_jsonl\<close> returns normally: it reads no image,
  writes an empty file \<open>input.jsonl\<close> (a file of zero lines) and uploads it. When the
  existence check returns the empty list as well, \<open>start_batch_inference_job\<close> then
  creates the job, whose input is \<open>s3://{bucket_name}/input.jsonl\<close>. When the local
  file cannot be written, \<open>create_input_jsonl\<close> raises the error of the write and
  uploads nothing.
\<close>

theorem empty_listing_still_submits:
  "(L (s3_client self) (events w) (bucket_name self) (folder_name self) = Inr [] \<and>
    write_error w ''input.jsonl'' = None
    \<longrightarrow> (\<exists>w' pr. create_input_jsonl L self w = (Inr (), self, w') \<and>
           files w' ''input.jsonl'' = Some [] \<and>
           readlines [] = [] \<and>
           new_events w w' =
             [ListObjS3 (bucket_name self) (folder_name self) (Inr []),
              PutObject (bucket_name self) ''input.jsonl'' [] pr] \<and>
           new_file_events w w' = [WriteFile ''input.jsonl'' [] (Inr ())])) \<and>
   (L (s3_client self) (events w) (bucket_name self) ''input.jsonl'' = Inr [] \<and>
    L (s3_client self) (events w @ [ListObjS3 (bucket_name self) ''input.jsonl'' (Inr [])])
       (bucket_name self) (folder_name self) = Inr [] \<and>
    write_error w ''input.jsonl'' = None
    \<longrightarrow> (\<exists>w' pr resp. start_batch_inference_job L self w = (jobArn_of resp, self, w') \<and>
           files w' ''input.jsonl'' = Some [] \<and>
           new_events w w' =
             [ListObjS3 (bucket_name self) ''input.jsonl'' (Inr []),
              ListObjS3 (bucket_name self) (folder_name self) (Inr []),
              PutObject (bucket_name self) ''input.jsonl'' [] pr,
              CreateModelInvocationJob (job_request_of self) resp] \<and>
           new_file_events w w' = [WriteFile ''input.jsonl'' [] (Inr ())] \<and>
           inputDataConfig (job_request_of self) =
             JDict [(''s3InputDataConfig'',
                       JDict [(''s3InputFormat'', JStr ''JSONL''),
                              (''s3Uri'', JStr (''s3://'' @ bucket_name self @ ''/input.jsonl''))])])) \<and>
   (L (s3_client self) (events w) (bucket_name self) (folder_name self) = Inr [] \<and>
    write_error w ''input.jsonl'' = Some (e, left)
    \<longrightarrow> (\<exists>w'. create_input_jsonl L self w = (Inl e, self, w') \<and>
           new_events w w' = [ListObjS3 (bucket_name self) (folder_name self) (Inr [])] \<and>
           new_file_events w w' = [WriteFile ''input.jsonl'' [] (Inl e)]))"
proof (intro conjI impI)
  assume l: "L (s3_client self) (events w) (bucket_name self) (folder_name self) = Inr [] \<and>
    write_error w ''input.jsonl'' = None"
  obtain r self' w' where run: "create_input_jsonl L self w = (r, self', w')"
    by (cases "create_input_jsonl L self w")
  have self': "self' = self" by (rule create_input_jsonl_self [OF run])
  have rf: "request_file self [] [] = []"
    by (simp add: request_file_def records_of_def)
  from run have "\<exists>pr. r = Inr () \<and> files w' ''input.jsonl'' = Some [] \<and>
           new_events w w' =
             [ListObjS3 (bucket_name self) (folder_name self) (Inr []),
              PutObject (bucket_name self) ''input.jsonl'' [] pr] \<and>
           new_file_events w w' = [WriteFile ''input.jsonl'' [] (Inr ())]"
  proof (cases rule: create_input_jsonl_cases)
    case (list_failed e)
    with l show ?thesis by simp
  next
    case (get_failed keys n bs e)
    with l show ?thesis by simp
  next
    case (write_failed keys bs e left)
    with l show ?thesis by simp
  next
    case (written keys bs pr)
    with l have k: "keys = []" "bs = []" by simp_all
    from new_events_append [OF written(4)] new_file_events_append [OF written(8)] written(3,5)
    show ?thesis unfolding k by (simp add: rf fetched_def)
  qed
  with run self' show "\<exists>w' pr. create_input_jsonl L self w = (Inr (), self, w') \<and>
           files w' ''input.jsonl'' = Some [] \<and>
           readlines [] = [] \<and>
           new_events w w' =
             [ListObjS3 (bucket_name self) (folder_name self) (Inr []),
              PutObject (bucket_name self) ''input.jsonl'' [] pr] \<and>
           new_file_events w w' = [WriteFile ''input.jsonl'' [] (Inr ())]"
    by (auto simp: readlines_def)
next
  assume a: "L (s3_client self) (events w) (bucket_name self) ''input.jsonl'' = Inr [] \<and>
    L (s3_client self) (events w @ [ListObjS3 (bucket_name self) ''input.jsonl'' (Inr [])])
       (bucket_name self) (folder_name self) = Inr [] \<and>
    write_error w ''input.jsonl'' = None"
  obtain r self' w' where run: "start_batch_inference_job L self w = (r, self', w')"
    by (cases "start_batch_inference_job L self w")
  have self': "self' = self" by (rule start_batch_inference_job_self [OF run])
  have req: "inputDataConfig (job_request_of self) =
             JDict [(''s3InputDataConfig'',
                       JDict [(''s3InputFormat'', JStr ''JSONL''),
                              (''s3Uri'', JStr (''s3://'' @ bucket_name self @ ''/input.jsonl''))])]"
    by (simp add: job_request_of_def Let_def)
  have rf: "request_file self [] [] = []"
    by (simp add: request_file_def records_of_def)
  from run have "\<exists>pr resp. r = jobArn_of resp \<and> files w' ''input.jsonl'' = Some [] \<and>
           new_events w w' =
             [ListObjS3 (bucket_name self) ''input.jsonl'' (Inr []),
              ListObjS3 (bucket_name self) (folder_name self) (Inr []),
              PutObject (bucket_name self) ''input.jsonl'' [] pr,
              CreateModelInvocationJob (job_request_of self) resp] \<and>
           new_file_events w w' = [WriteFile ''input.jsonl'' [] (Inr ())]"
  proof (cases rule: start_batch_inference_job_cases)
    case (check_failed e)
    with a show ?thesis by simp
  next
    case (exists found resp)
    with a show ?thesis by simp
  next
    case (list_failed e)
    with a show ?thesis by simp
  next
    case (get_failed keys n bs e)
    with a show ?thesis by simp
  next
    case (write_failed keys bs e left)
    with a show ?thesis by simp
  next
    case (created keys bs pr resp)
    with a have k: "keys = []" "bs = []" by simp_all
    from new_events_append [OF created(5)] new_file_events_append [OF created(7)] created(4,6)
    show ?thesis unfolding k by (simp add: rf fetched_def)
  qed
  with run self' req show "\<exists>w' pr resp.
           start_batch_inference_job L self w = (jobArn_of resp, self, w') \<and>
           files w' ''input.jsonl'' = Some [] \<and>
           new_events w w' =
             [ListObjS3 (bucket_name self) ''input.jsonl'' (Inr []),
              ListObjS3 (bucket_name self) (folder_name self) (Inr []),
              PutObject (bucket_name self) ''input.jsonl'' [] pr,
              CreateModelInvocationJob (job_request_of self) resp] \<and>
           new_file_events w w' = [WriteFile ''input.jsonl'' [] (Inr ())] \<and>
           inputDataConfig (job_request_of self) =
             JDict [(''s3InputDataConfig'',
                       JDict [(''s3InputFormat'', JStr ''JSONL''),
                              (''s3Uri'', JStr (''s3://'' @ bucket_name self @ ''/input.jsonl''))])]"
    by auto
next
  assume l: "L (s3_client self) (events w) (bucket_name self) (folder_name self) = Inr [] \<and>
    write_error w ''input.jsonl'' = Some (e, left)"
  obtain r self' w' where run: "create_input_jsonl L self w = (r, self', w')"
    by (cases "create_input_jsonl L self w")
  have self': "self' = self" by (rule create_input_jsonl_self [OF run])
  have rf: "request_file self [] [] = []"
    by (simp add: request_file_def records_of_def)
  from run have "r = Inl e \<and>
           new_events w w' = [ListObjS3 (bucket_name self) (folder_name self) (Inr [])] \<and>
           new_file_events w w' = [WriteFile ''input.jsonl'' [] (Inl e)]"
  proof (cases rule: create_input_jsonl_cases)
    case (list_failed e')
    with l show ?thesis by simp
  next
    case (get_failed keys n bs e')
    with l show ?thesis by simp
  next
    case (write_failed keys bs e' left')
    with l have k: "keys = []" "bs = []" "e' = e" by simp_all
    from new_events_append [OF write_failed(4)] new_file_events_append [OF write_failed(7)]
      write_failed(3)
    show ?thesis unfolding k by (simp add: rf fetched_def)
  next
    case (written keys bs pr)
    with l show ?thesis by simp
  qed
  with run self' show "\<exists>w'. create_input_jsonl L self w = (Inl e, self, w') \<and>
           new_events w w' = [ListObjS3 (bucket_name self) (folder_name self) (Inr [])] \<and>
           new_file_events w w' = [WriteFile ''input.jsonl'' [] (Inl e)]"
    by auto
qed

theorem empty_listing_still_submits_witness:
  "(\<exists>w' pr. create_input_jsonl demo_list demo_self_empty demo_world = (Inr (), demo_self_empty, w') \<and>
      files w' ''input.jsonl'' = Some [] \<and>
      new_events demo_world w' =
        [ListObjS3 ''bkt'' ''empty/'' (Inr []), PutObject ''bkt'' ''input.jsonl'' [] pr]) \<and>
   (\<exists>w' pr resp. start_batch_inference_job demo_list demo_self_empty demo_world
        = (jobArn_of resp, demo_self_empty, w') \<and>
      files w' ''input.jsonl'' = Some [] \<and>
      new_events demo_world w' =
        [ListObjS3 ''bkt'' ''input.jsonl'' (Inr []), ListObjS3 ''bkt'' ''empty/'' (Inr []),
         PutObject ''bkt'' ''input.jsonl'' [] pr,
         CreateModelInvocationJob (job_request_of demo_self_empty) resp]) \<and>
   (\<exists>w'. create_input_jsonl demo_list demo_self_empty demo_world_dir
        = (Inl (OSError ''[Errno 21] Is a directory: input.jsonl''), demo_self_empty, w') \<and>
      new_events demo_world_dir w' = [ListObjS3 ''bkt'' ''empty/'' (Inr [])])"
proof -
  have l: "demo_list (s3_client demo_self_empty) (events demo_world) (bucket_name demo_self_empty)
      (folder_name demo_self_empty) = Inr [] \<and> write_error demo_world ''input.jsonl'' = None"
    by (simp add: demo_defs)
  have c: "demo_list (s3_client demo_self_empty) (events demo_world) (bucket_name demo_self_empty)
      ''input.jsonl'' = Inr [] \<and>
    demo_list (s3_client demo_self_empty)
      (events demo_world @ [ListObjS3 (bucket_name demo_self_empty) ''input.jsonl'' (Inr [])])
      (bucket_name demo_self_empty) (folder_name demo_self_empty) = Inr [] \<and>
    write_error demo_world ''input.jsonl'' = None"
    by (simp add: demo_defs)
  have d: "demo_list (s3_client demo_self_empty) (events demo_world_dir)
      (bucket_name demo_self_empty) (folder_name demo_self_empty) = Inr [] \<and>
    write_error demo_world_dir ''input.jsonl''
      = Some (OSError ''[Errno 21] Is a directory: input.jsonl'', None)"
    by (simp add: demo_defs)
  have n: "bucket_name demo_self_empty = ''bkt''" "folder_name demo_self_empty = ''empty/''"
    by (simp_all add: demo_defs)
  note T = empty_listing_still_submits [where L = demo_list and self = demo_self_empty
      and w = demo_world, unfolded n]
  note U = empty_listing_still_submits [where L = demo_list and self = demo_self_empty
      and w = demo_world_dir and e = "OSError ''[Errno 21] Is a directory: input.jsonl''"
      and left = None, unfolded n]
  from T l [unfolded n]
  have 1: "\<exists>w' pr. create_input_jsonl demo_list demo_self_empty demo_world
        = (Inr (), demo_self_empty, w') \<and>
      files w' ''input.jsonl'' = Some [] \<and>
      new_events demo_world w' =
        [ListObjS3 ''bkt'' ''empty/'' (Inr []), PutObject ''bkt'' ''input.jsonl'' [] pr]"
    by blast
  from T c [unfolded n]
  have 2: "\<exists>w' pr resp. start_batch_inference_job demo_list demo_self_empty demo_world
        = (jobArn_of resp, demo_self_empty, w') \<and>
      files w' ''input.jsonl'' = Some [] \<and>
      new_events demo_world w' =
        [ListObjS3 ''bkt'' ''input.jsonl'' (Inr []), ListObjS3 ''bkt'' ''empty/'' (Inr []),
         PutObject ''bkt'' ''input.jsonl'' [] pr,
         CreateModelInvocationJob (job_request_of demo_self_empty) resp]"
    by blast
  from U d [unfolded n]
  have 3: "\<exists>w'. create_input_jsonl demo_list demo_self_empty demo_world_dir
        = (Inl (OSError ''[Errno 21] Is a directory: input.jsonl''), demo_self_empty, w') \<and>
      new_events demo_world_dir w' = [ListObjS3 ''bkt'' ''empty/'' (Inr [])]"
    by blast
  from 1 2 3 show ?thesis by blast
qed

end
